theory Spec2Isabelle
  imports Complex_Main "HOL-Library.Sublist"
begin

section \<open>Python strings\<close>

text \<open>
  A Python \<open>str\<close> is modelled as a \<^typ>\<open>string\<close> whose characters are the code points
  below 256. The character classes below are the ones \<open>str.isspace\<close>, \<open>str.lower\<close> and
  the \<open>re\<close> module use on that range.
\<close>

definition isspace :: "char \<Rightarrow> bool" where
  "isspace c =
     (let n = (of_char c :: nat)
      in (9 \<le> n \<and> n \<le> 13) \<or> (28 \<le> n \<and> n \<le> 32) \<or> n = 133 \<or> n = 160)"

definition lower_char :: "char \<Rightarrow> char" where
  "lower_char c =
     (let n = (of_char c :: nat)
      in if (65 \<le> n \<and> n \<le> 90) \<or> (192 \<le> n \<and> n \<le> 222 \<and> n \<noteq> 215)
         then char_of (n + 32) else c)"

definition lower :: "string \<Rightarrow> string" where
  "lower s = map lower_char s"

definition startswith :: "string \<Rightarrow> string \<Rightarrow> bool" where
  "startswith s p = prefix p s"

definition strip :: "string \<Rightarrow> string" where
  "strip s = rev (dropWhile isspace (rev (dropWhile isspace s)))"

text \<open>\<open>s.replace(old, new)\<close> for a one-character \<open>old\<close>.\<close>

definition replace :: "string \<Rightarrow> char \<Rightarrow> string \<Rightarrow> string" where
  "replace s old new = concat (map (\<lambda>c. if c = old then new else [c]) s)"

text \<open>\<open>sep.join(xs)\<close>.\<close>

fun join :: "string \<Rightarrow> string list \<Rightarrow> string" where
  "join sep [] = []"
| "join sep [x] = x"
| "join sep (x # y # ys) = x @ sep @ join sep (y # ys)"

text \<open>\<open>str(n)\<close> for an integer.\<close>

fun digits :: "nat \<Rightarrow> string" where
  "digits n = (if n < 10 then [char_of (48 + n)] else digits (n div 10) @ [char_of (48 + n mod 10)])"

declare digits.simps [simp del]

definition str_int :: "int \<Rightarrow> string" where
  "str_int i = (if i < 0 then ''-'' @ digits (nat (- i)) else digits (nat i))"

section \<open>Exceptions\<close>

text \<open>
  An exception carries its class name, whether it is an instance of \<open>SQLAlchemyError\<close>,
  its \<open>str()\<close>, and the \<open>str()\<close> of its \<open>orig\<close> attribute when it has one: the
  errors that wrap an exception of the database driver have it, the other SQLAlchemy errors
  do not.
\<close>

datatype py_exception =
  PyException (exc_class: string) (exc_sqlalchemy: bool) (exc_str: string) (exc_orig: "string option")

definition AttributeError :: "string \<Rightarrow> string \<Rightarrow> py_exception" where
  "AttributeError cls attr =
     PyException ''AttributeError'' False
       ([CHR 0x27] @ cls @ [CHR 0x27] @ '' object has no attribute '' @ [CHR 0x27] @ attr @ [CHR 0x27])
       None"

definition IndexError :: py_exception where
  "IndexError = PyException ''IndexError'' False ''tuple index out of range'' None"

section \<open>The database engine and the generation model\<close>

datatype sql_value = SqlNull | SqlInteger int | SqlReal real | SqlText string | SqlBlob string

type_synonym row = "sql_value list"

text \<open>
  The effects of one request, oldest first: the prompts sent to the model, and the
  statements sent to a database file.
\<close>

datatype event = ModelCall string | SqlExec string string

text \<open>
  Everything outside the program. The engine and the model answer as a function of the
  effects that came before, so a statement may change what a later one sees and the model
  may answer the same prompt differently.
  \<^item> \<open>path_exists\<close> is \<open>os.path.exists\<close>;
  \<^item> \<open>connect\<close> is \<open>engine.connect()\<close>, \<open>Some e\<close> when it raises \<open>e\<close>;
  \<^item> \<open>fetchall\<close> is \<open>conn.execute(text(q)).fetchall()\<close> on a database file;
  \<^item> \<open>generate_content\<close> is \<open>model.generate_content(prompt).text\<close>;
  \<^item> \<open>py_repr\<close> is \<open>repr()\<close> on the values of a row.
\<close>

record world =
  path_exists :: "string \<Rightarrow> bool"
  connect :: "string \<Rightarrow> py_exception option"
  fetchall :: "event list \<Rightarrow> string \<Rightarrow> string \<Rightarrow> py_exception + row list"
  generate_content :: "event list \<Rightarrow> string \<Rightarrow> py_exception + string"
  py_repr :: "sql_value \<Rightarrow> string"

definition type_name :: "sql_value \<Rightarrow> string" where
  "type_name v =
     (case v of SqlNull \<Rightarrow> ''NoneType'' | SqlInteger _ \<Rightarrow> ''int'' | SqlReal _ \<Rightarrow> ''float''
      | SqlText _ \<Rightarrow> ''str'' | SqlBlob _ \<Rightarrow> ''bytes'')"

text \<open>\<open>str(v)\<close>, as an f-string interpolates a value.\<close>

definition py_str :: "world \<Rightarrow> sql_value \<Rightarrow> string" where
  "py_str w v = (case v of SqlText s \<Rightarrow> s | _ \<Rightarrow> py_repr w v)"

text \<open>\<open>repr\<close> of a row, which prints as a tuple.\<close>

definition repr_row :: "world \<Rightarrow> row \<Rightarrow> string" where
  "repr_row w r =
     (case r of [v] \<Rightarrow> ''('' @ py_repr w v @ '',)''
      | _ \<Rightarrow> ''('' @ join '', '' (map (py_repr w) r) @ '')'')"

text \<open>\<open>str\<close> of a list of rows.\<close>

definition str_rows :: "world \<Rightarrow> row list \<Rightarrow> string" where
  "str_rows w rs = ''['' @ join '', '' (map (repr_row w) rs) @ '']''"

text \<open>\<open>row[i]\<close>.\<close>

definition getitem :: "row \<Rightarrow> nat \<Rightarrow> py_exception + sql_value" where
  "getitem r i = (if i < length r then Inr (r ! i) else Inl IndexError)"

text \<open>\<open>v.startswith(p)\<close>: only a \<open>str\<close> has the method.\<close>

definition value_startswith :: "sql_value \<Rightarrow> string \<Rightarrow> py_exception + bool" where
  "value_startswith v p =
     (case v of SqlText s \<Rightarrow> Inr (startswith s p)
      | _ \<Rightarrow> Inl (AttributeError (type_name v) ''startswith''))"

section \<open>Helper functions of the application\<close>

definition STORED_DB :: string where
  "STORED_DB = ''data/sqldb.db''"

definition UPLOADED_DB :: string where
  "UPLOADED_DB = ''data/uploaded_files_sqldb.db''"

definition ask_gemini :: "world \<Rightarrow> string \<Rightarrow> event list \<Rightarrow> (py_exception + string) \<times> event list" where
  "ask_gemini w prompt tr = (generate_content w tr prompt, tr @ [ModelCall prompt])"

subsection \<open>\<open>get_db_schema\<close>\<close>

definition table_query :: string where
  "table_query = ''SELECT name FROM sqlite_master WHERE type='table';''"

definition table_header :: "string \<Rightarrow> string" where
  "table_header table_name = ''Table: `'' @ table_name @ ''`\<newline>Columns:\<newline>''"

definition table_info_query :: "string \<Rightarrow> string" where
  "table_info_query table_name = ''PRAGMA table_info(`'' @ table_name @ ''`);''"

definition column_line :: "string \<Rightarrow> string" where
  "column_line col_name = ''- \"'' @ col_name @ ''\"\<newline>''"

text \<open>The inner loop over the rows of \<open>PRAGMA table_info\<close>.\<close>

fun columns_loop :: "world \<Rightarrow> row list \<Rightarrow> string \<Rightarrow> py_exception + string" where
  "columns_loop w [] schema_str = Inr schema_str"
| "columns_loop w (col # columns) schema_str =
     (case getitem col 1 of
        Inl e \<Rightarrow> Inl e
      | Inr v \<Rightarrow> columns_loop w columns (schema_str @ column_line (py_str w v)))"

text \<open>The outer loop over the rows of the table query.\<close>

fun tables_loop ::
  "world \<Rightarrow> string \<Rightarrow> row list \<Rightarrow> string \<Rightarrow> event list \<Rightarrow> (py_exception + string) \<times> event list"
where
  "tables_loop w db_file [] schema_str tr = (Inr schema_str, tr)"
| "tables_loop w db_file (table # table_names) schema_str tr =
     (case getitem table 0 of
        Inl e \<Rightarrow> (Inl e, tr)
      | Inr table_name \<Rightarrow>
          (case value_startswith table_name ''sqlite_'' of
             Inl e \<Rightarrow> (Inl e, tr)
           | Inr skip \<Rightarrow>
               if skip then tables_loop w db_file table_names schema_str tr
               else
                 (let header = schema_str @ table_header (py_str w table_name);
                      stmt = table_info_query (py_str w table_name);
                      tr' = tr @ [SqlExec db_file stmt]
                  in case fetchall w tr db_file stmt of
                       Inl e \<Rightarrow> (Inl e, tr')
                     | Inr columns \<Rightarrow>
                         (case columns_loop w columns header of
                            Inl e \<Rightarrow> (Inl e, tr')
                          | Inr s \<Rightarrow> tables_loop w db_file table_names (s @ ''\<newline>'') tr'))))"

definition get_db_schema ::
  "world \<Rightarrow> string \<Rightarrow> event list \<Rightarrow> (py_exception + string) \<times> event list"
where
  "get_db_schema w db_file tr =
     (case connect w db_file of
        Some e \<Rightarrow> (Inl e, tr)
      | None \<Rightarrow>
          (case fetchall w tr db_file table_query of
             Inl e \<Rightarrow> (Inl e, tr @ [SqlExec db_file table_query])
           | Inr table_names \<Rightarrow>
               tables_loop w db_file table_names [] (tr @ [SqlExec db_file table_query])))"

subsection \<open>\<open>execute_sql\<close>\<close>

text \<open>The function returns the list of rows or a string.\<close>

datatype sql_result = Rows "row list" | Message string

definition execute_sql ::
  "world \<Rightarrow> string \<Rightarrow> string \<Rightarrow> event list \<Rightarrow> (py_exception + sql_result) \<times> event list"
where
  "execute_sql w db_file sql_query tr =
     (case connect w db_file of
        Some e \<Rightarrow> (Inl e, tr)
      | None \<Rightarrow>
          (let tr' = tr @ [SqlExec db_file sql_query]
           in case fetchall w tr db_file sql_query of
                Inr result \<Rightarrow> (Inr (Rows result), tr')
              | Inl e \<Rightarrow>
                  if exc_sqlalchemy e
                  then (case exc_orig e of
                          Some orig \<Rightarrow> (Inr (Message (''SQL Error: '' @ orig)), tr')
                        | None \<Rightarrow> (Inl (AttributeError (exc_class e) ''orig''), tr'))
                  else (Inl e, tr')))"

text \<open>\<open>str(result)\<close>.\<close>

definition str_result :: "world \<Rightarrow> sql_result \<Rightarrow> string" where
  "str_result w r = (case r of Rows rs \<Rightarrow> str_rows w rs | Message s \<Rightarrow> s)"

section \<open>Extraction of the SQL text\<close>

text \<open>
  The pattern is \<^verbatim>\<open>```sql\s*([\s\S]*?)\s*```\<close>, searched with \<open>re.IGNORECASE\<close>.
  The functions below follow the matcher: the literal head, the greedy \<open>\s*\<close> that gives
  characters back when the rest fails, the lazy group that takes the shortest text after
  which \<^verbatim>\<open>\s*```\<close> matches, and the search that tries every start from the left.
\<close>

definition fence :: string where
  "fence = ''```''"

text \<open>The literal \<^verbatim>\<open>```sql\<close> at the head of the text, letters in either case.\<close>

definition opens :: "string \<Rightarrow> string option" where
  "opens s = (if 6 \<le> length s \<and> lower (take 6 s) = fence @ ''sql'' then Some (drop 6 s) else None)"

text \<open>\<^verbatim>\<open>\s*```\<close> at the head of the text.\<close>

definition closes :: "string \<Rightarrow> bool" where
  "closes s = prefix fence (dropWhile isspace s)"

fun lazy_group :: "string \<Rightarrow> string option" where
  "lazy_group [] = None"
| "lazy_group (c # cs) =
     (if closes (c # cs) then Some [] else map_option ((#) c) (lazy_group cs))"

fun greedy_space :: "string \<Rightarrow> string option" where
  "greedy_space [] = lazy_group []"
| "greedy_space (c # cs) =
     (if isspace c
      then (case greedy_space cs of Some g \<Rightarrow> Some g | None \<Rightarrow> lazy_group (c # cs))
      else lazy_group (c # cs))"

definition match_at :: "string \<Rightarrow> string option" where
  "match_at s = (case opens s of None \<Rightarrow> None | Some rest \<Rightarrow> greedy_space rest)"

text \<open>\<open>re.search\<close>: \<open>None\<close> when there is no match, else the text of group 1.\<close>

fun re_search :: "string \<Rightarrow> string option" where
  "re_search [] = match_at []"
| "re_search (c # cs) =
     (case match_at (c # cs) of Some g \<Rightarrow> Some g | None \<Rightarrow> re_search cs)"

section \<open>The route \<open>/ask\<close>\<close>

text \<open>The values of the request's JSON object that the route reads.\<close>

datatype json = JNull | JBool bool | JInt int | JStr string

text \<open>\<open>data.get(key)\<close>: \<open>None\<close> for a missing key.\<close>

definition dict_get :: "(string \<times> json) list \<Rightarrow> string \<Rightarrow> json" where
  "dict_get data key = (case map_of data key of None \<Rightarrow> JNull | Some v \<Rightarrow> v)"

definition str_json :: "json \<Rightarrow> string" where
  "str_json v =
     (case v of JNull \<Rightarrow> ''None'' | JBool b \<Rightarrow> (if b then ''True'' else ''False'')
      | JInt i \<Rightarrow> str_int i | JStr s \<Rightarrow> s)"

text \<open>A response: the status code and the JSON object given to \<open>jsonify\<close>.\<close>

datatype response = Response (status: nat) (body: "(string \<times> string) list")

definition first_prompt :: "string \<Rightarrow> string \<Rightarrow> string" where
  "first_prompt db_schema question =
     ''You are an expert SQLite writer. You MUST follow these rules:\<newline>'' @
     ''1. **CRITICAL RULE:** Column names with spaces or special characters MUST be enclosed in double quotes (\"). For example, to use a column named 'Recharge from Rainfall-MON', you must write `SELECT \"Recharge from Rainfall-MON\"`.\<newline>'' @
     ''2. To find the total recharge from rainfall, you MUST add the \"Recharge from Rainfall-MON\" and \"Recharge from Rainfall-NM\" columns together.\<newline>\<newline>'' @
     ''Here is the database schema:\<newline>'' @ db_schema @ ''\<newline>\<newline>'' @
     ''---\<newline>\<newline>'' @
     ''Based on all the rules and the schema, write a single, valid SQLite query to answer the question: '' @ question"

definition retry_prompt :: "string \<Rightarrow> string \<Rightarrow> string \<Rightarrow> string \<Rightarrow> string" where
  "retry_prompt db_schema question sql_query result_str =
     ''The previous attempt failed. Please fix it. You MUST follow these rules:\<newline>'' @
     ''1. **CRITICAL RULE:** Column names with spaces or special characters MUST be enclosed in double quotes (\").\<newline>'' @
     ''2. To find total rainfall recharge, you MUST add \"Recharge from Rainfall-MON\" and \"Recharge from Rainfall-NM\".\<newline>\<newline>'' @
     ''Schema:\<newline>'' @ db_schema @ ''\<newline>'' @
     ''Original Question: '' @ question @ ''\<newline>'' @
     ''Failed Response/Query: '' @ sql_query @ ''\<newline>'' @
     ''Error Message: '' @ result_str @ ''\<newline>\<newline>'' @
     ''Provide only the corrected, valid SQLite query inside a ```sql code block.''"

definition answer_prompt :: "string \<Rightarrow> string \<Rightarrow> string" where
  "answer_prompt question result_str =
     ''User Question: '' @ question @ ''\<newline>'' @
     ''SQL Result: '' @ result_str @ ''\<newline>\<newline>'' @
     ''Provide a clear, natural language answer.''"

definition no_block_error :: string where
  "no_block_error = ''SQL Error: The AI response did not contain a valid SQL code block.''"

definition failure_message :: "string \<Rightarrow> string" where
  "failure_message result_str =
     ''I tried to answer, but the process failed with an error: '' @ result_str"

definition max_retries :: nat where
  "max_retries = 2"

text \<open>The two variables that the loop carries from one attempt to the next.\<close>

record attempt_record =
  sql_query :: string
  result_str :: string

definition failed :: "attempt_record \<Rightarrow> bool" where
  "failed st = startswith (result_str st) ''SQL Error:''"

text \<open>The prompt of an attempt: the first one, or the one that reports the failure before it.\<close>

definition attempt_prompt :: "string \<Rightarrow> string \<Rightarrow> nat \<Rightarrow> attempt_record \<Rightarrow> string" where
  "attempt_prompt db_schema question attempt st =
     (if attempt = 0 then first_prompt db_schema question
      else retry_prompt db_schema question (sql_query st) (result_str st))"

text \<open>One pass through the body of the loop, up to the test that leaves it.\<close>

definition attempt_body ::
  "world \<Rightarrow> string \<Rightarrow> string \<Rightarrow> string \<Rightarrow> nat \<Rightarrow> attempt_record \<Rightarrow> event list
     \<Rightarrow> (py_exception + attempt_record) \<times> event list"
where
  "attempt_body w db_file db_schema question attempt st tr =
     (let prompt = attempt_prompt db_schema question attempt st
      in case ask_gemini w prompt tr of
           (Inl e, tr1) \<Rightarrow> (Inl e, tr1)
         | (Inr raw_response, tr1) \<Rightarrow>
             (case re_search raw_response of
                Some g \<Rightarrow>
                  (case execute_sql w db_file (strip g) tr1 of
                     (Inl e, tr2) \<Rightarrow> (Inl e, tr2)
                   | (Inr result, tr2) \<Rightarrow>
                       (Inr \<lparr>sql_query = strip g, result_str = str_result w result\<rparr>, tr2))
              | None \<Rightarrow>
                  (Inr \<lparr>sql_query = raw_response, result_str = no_block_error\<rparr>, tr1)))"

text \<open>\<open>for attempt in range(max_retries)\<close>, with its \<open>break\<close>.\<close>

fun attempts_loop ::
  "world \<Rightarrow> string \<Rightarrow> string \<Rightarrow> string \<Rightarrow> nat list \<Rightarrow> attempt_record \<Rightarrow> event list
     \<Rightarrow> (py_exception + attempt_record) \<times> event list"
where
  "attempts_loop w db_file db_schema question [] st tr = (Inr st, tr)"
| "attempts_loop w db_file db_schema question (attempt # rest) st tr =
     (case attempt_body w db_file db_schema question attempt st tr of
        (Inl e, tr') \<Rightarrow> (Inl e, tr')
      | (Inr st', tr') \<Rightarrow>
          if \<not> failed st' then (Inr st', tr')
          else attempts_loop w db_file db_schema question rest st' tr')"

text \<open>The body of the \<open>try\<close> block of the route.\<close>

definition ask_try ::
  "world \<Rightarrow> string \<Rightarrow> string \<Rightarrow> (py_exception + response) \<times> event list"
where
  "ask_try w db_file question =
     (case get_db_schema w db_file [] of
        (Inl e, tr) \<Rightarrow> (Inl e, tr)
      | (Inr db_schema, tr) \<Rightarrow>
          if db_schema = []
          then (Inr (Response 400 [(''error'', ''No tables found in the database: '' @ db_file)]), tr)
          else
            (case attempts_loop w db_file db_schema question [0..<max_retries]
                    \<lparr>sql_query = [], result_str = []\<rparr> tr of
               (Inl e, tr') \<Rightarrow> (Inl e, tr')
             | (Inr st, tr') \<Rightarrow>
                 if failed st
                 then (Inr (Response 200 [(''answer'', failure_message (result_str st))]), tr')
                 else
                   (case ask_gemini w (answer_prompt question (result_str st)) tr' of
                      (Inl e, tr'') \<Rightarrow> (Inl e, tr'')
                    | (Inr answer, tr'') \<Rightarrow> (Inr (Response 200 [(''answer'', answer)]), tr''))))"

definition select_db :: "json \<Rightarrow> string" where
  "select_db chat_type = (if chat_type = JStr ''sql-stored'' then STORED_DB else UPLOADED_DB)"

text \<open>The route: the response, and the effects of the request.\<close>

definition ask :: "world \<Rightarrow> (string \<times> json) list \<Rightarrow> response \<times> event list" where
  "ask w data =
     (let question = dict_get data ''question'';
          chat_type = dict_get data ''chat_type'';
          db_file = select_db chat_type
      in if \<not> path_exists w db_file
         then (Response 400 [(''error'', ''DB file '' @ db_file @ '' does not exist'')], [])
         else
           (case ask_try w db_file (str_json question) of
              (Inl e, tr) \<Rightarrow>
                (Response 500 [(''error'', ''An unexpected error occurred: '' @ exc_str e)], tr)
            | (Inr r, tr) \<Rightarrow> (r, tr)))"

section \<open>The route \<open>/upload\<close>\<close>

text \<open>\<open>s.rfind(c)\<close>: the index of the last \<open>c\<close>, or \<open>-1\<close>.\<close>

definition rfind :: "string \<Rightarrow> char \<Rightarrow> int" where
  "rfind s c =
     (if c \<in> set s then int (length s) - 1 - int (length (takeWhile (\<lambda>x. x \<noteq> c) (rev s)))
      else - 1)"

text \<open>
  \<open>os.path.splitext\<close> on a POSIX path: the extension starts at the last dot after the last
  slash, unless only dots come before it in the file name.
\<close>

definition splitext :: "string \<Rightarrow> string \<times> string" where
  "splitext p =
     (let sepIndex = rfind p CHR ''/'';
          dotIndex = rfind p CHR ''.''
      in if dotIndex > sepIndex \<and>
            list_ex (\<lambda>x. x \<noteq> CHR ''.'') (take (nat (dotIndex - (sepIndex + 1))) (drop (nat (sepIndex + 1)) p))
         then (take (nat dotIndex) p, drop (nat dotIndex) p)
         else (p, []))"

text \<open>A data frame: the column labels and the rows; its index is the default \<open>0, 1, ...\<close>.\<close>

record data_frame =
  columns :: "string list"
  df_rows :: "row list"

text \<open>
  An uploaded file: the name the client gave, and the content as the readers see it, a
  header row of cells and the data rows below it. How the bytes of a CSV or of an Excel file
  spell these cells is the business of the readers.
\<close>

record upload =
  filename :: string
  header_row :: "string list"
  data_rows :: "row list"

text \<open>
  The two readers of pandas, which the route calls on the uploaded file and this repository
  does not define: each returns a frame or raises.
\<close>

record pandas =
  read_csv :: "upload \<Rightarrow> py_exception + data_frame"
  read_excel :: "upload \<Rightarrow> py_exception + data_frame"

text \<open>
  SQLite compares the names of tables and of columns without regard to the case of the
  letters \<open>A\<close> to \<open>Z\<close>; the other characters are compared as they are.
\<close>

definition ascii_lower :: "char \<Rightarrow> char" where
  "ascii_lower c =
     (let n = (of_char c :: nat) in if 65 \<le> n \<and> n \<le> 90 then char_of (n + 32) else c)"

definition table_key :: "string \<Rightarrow> string" where
  "table_key name = map ascii_lower name"

text \<open>
  A stored table, with the name it was created under, and a database as the tables it
  holds, each found under the \<open>table_key\<close> of its name.
\<close>

record sql_table =
  stored_name :: string
  table_columns :: "string list"
  table_rows :: "row list"

type_synonym database = "string \<Rightarrow> sql_table option"

text \<open>
  The answer of the database engine when pandas writes rows into a table of that name with
  those columns, creating it first unless it appends: \<open>None\<close> when the engine accepts,
  \<open>Some e\<close> when it raises \<open>e\<close>. SQLite rejects some names and some lists of columns.
\<close>

type_synonym engine = "string \<Rightarrow> string list \<Rightarrow> row list \<Rightarrow> py_exception option"

datatype if_exists = Fail | Replace | Append

text \<open>
  \<open>df.to_sql(name, engine, index=..., if_exists=...)\<close>: with \<open>index\<close> the frame's index is
  written as a first column named \<open>index\<close>; an existing table makes \<open>fail\<close> raise, is
  dropped by \<open>replace\<close> before the new one is created, and receives the rows with
  \<open>append\<close>. An exception of the engine leaves \<open>to_sql\<close>.
\<close>

definition to_sql ::
  "data_frame \<Rightarrow> string \<Rightarrow> engine \<Rightarrow> database \<Rightarrow> bool \<Rightarrow> if_exists \<Rightarrow> py_exception + database"
where
  "to_sql df name eng db index mode =
     (let cols = (if index then ''index'' # columns df else columns df);
          rws = (if index
                 then map (\<lambda>(i, r). SqlInteger (int i) # r) (zip [0..<length (df_rows df)] (df_rows df))
                 else df_rows df);
          fresh = \<lparr>stored_name = name, table_columns = cols, table_rows = rws\<rparr>;
          created = (case eng name cols rws of
                       Some e \<Rightarrow> Inl e
                     | None \<Rightarrow> Inr (db(table_key name \<mapsto> fresh)))
      in case db (table_key name) of
           None \<Rightarrow> created
         | Some t \<Rightarrow>
             (case mode of
                Fail \<Rightarrow>
                  Inl (PyException ''ValueError'' False
                         (''Table '' @ [CHR 0x27] @ name @ [CHR 0x27] @ '' already exists.'') None)
              | Replace \<Rightarrow> created
              | Append \<Rightarrow>
                  (case eng name cols rws of
                     Some e \<Rightarrow> Inl e
                   | None \<Rightarrow> Inr (db(table_key name \<mapsto> t\<lparr>table_rows := table_rows t @ rws\<rparr>)))))"

definition table_name_of :: "string \<Rightarrow> string" where
  "table_name_of fname = replace (replace (fst (splitext fname)) CHR '' '' ''_'') CHR ''-'' ''_''"

text \<open>
  The loop over the uploaded files, on the uploaded database. An unsupported extension
  returns from the route in the middle of the loop, the tables of the files before it
  stored. An exception of a reader or of \<open>to_sql\<close> leaves the route: the result is then the
  exception alone.
\<close>

fun upload_loop ::
  "pandas \<Rightarrow> engine \<Rightarrow> upload list \<Rightarrow> database \<Rightarrow> py_exception + response \<times> database"
where
  "upload_loop pd eng [] db =
     Inr (Response 200 [(''message'', ''Files uploaded successfully.'')], db)"
| "upload_loop pd eng (f # fs) db =
     (let name = table_name_of (filename f);
          ext = snd (splitext (filename f))
      in if lower ext = ''.csv'' \<or> lower ext = ''.xlsx''
         then
           (case (if lower ext = ''.csv'' then read_csv pd f else read_excel pd f) of
              Inl e \<Rightarrow> Inl e
            | Inr df \<Rightarrow>
                (case to_sql df name eng db False Replace of
                   Inl e \<Rightarrow> Inl e
                 | Inr db' \<Rightarrow> upload_loop pd eng fs db'))
         else Inr (Response 400 [(''error'', ''Unsupported file type '' @ ext)], db))"


section \<open>Counting effects\<close>

fun is_model_call :: "event \<Rightarrow> bool" where
  "is_model_call (ModelCall _) = True"
| "is_model_call (SqlExec _ _) = False"

definition model_calls :: "event list \<Rightarrow> nat" where
  "model_calls tr = length (filter is_model_call tr)"

definition executions :: "event list \<Rightarrow> nat" where
  "executions tr = length (filter (\<lambda>e. \<not> is_model_call e) tr)"

text \<open>The database files that the statements of a trace were sent to.\<close>

fun event_db :: "event \<Rightarrow> string list" where
  "event_db (ModelCall _) = []"
| "event_db (SqlExec db_file _) = [db_file]"

definition databases_of :: "event list \<Rightarrow> string list" where
  "databases_of tr = concat (map event_db tr)"

section \<open>What the specification calls a delimited SQL block\<close>

text \<open>
  The response contains a fenced region: an opening that is \<^verbatim>\<open>```sql\<close> up to the case
  of its letters and, somewhere after it, a closing \<^verbatim>\<open>```\<close>.
\<close>

definition has_sql_block :: "string \<Rightarrow> bool" where
  "has_sql_block raw =
     (\<exists>pre opening mid post. raw = pre @ opening @ mid @ fence @ post \<and> lower opening = fence @ ''sql'')"

section \<open>Example worlds\<close>

text \<open>\<open>repr\<close> on the values that the examples use.\<close>

definition example_repr :: "sql_value \<Rightarrow> string" where
  "example_repr v =
     (case v of SqlNull \<Rightarrow> ''None'' | SqlInteger i \<Rightarrow> str_int i
      | SqlText s \<Rightarrow> [CHR 0x27] @ s @ [CHR 0x27] | _ \<Rightarrow> ''?'')"

definition syntax_error :: py_exception where
  "syntax_error =
     PyException ''OperationalError'' True
       ''(sqlite3.OperationalError) near \"SELEC\": syntax error''
       (Some ''near \"SELEC\": syntax error'')"

definition cannot_open :: py_exception where
  "cannot_open =
     PyException ''OperationalError'' True
       ''(sqlite3.OperationalError) unable to open database file''
       (Some ''unable to open database file'')"

definition deadline_exceeded :: py_exception where
  "deadline_exceeded = PyException ''DeadlineExceeded'' False ''504 Deadline Exceeded'' None"

text \<open>A database with the internal table \<open>sqlite_sequence\<close> and one user table \<open>rain\<close>.\<close>

definition example_engine :: "event list \<Rightarrow> string \<Rightarrow> string \<Rightarrow> py_exception + row list" where
  "example_engine tr db_file q =
     (if q = table_query then Inr [[SqlText ''sqlite_sequence''], [SqlText ''rain'']]
      else if q = table_info_query ''rain''
      then Inr [[SqlInteger 0, SqlText ''State'', SqlText ''TEXT'', SqlInteger 0, SqlNull, SqlInteger 0],
                [SqlInteger 1, SqlText ''Recharge from Rainfall-MON'', SqlText ''BIGINT'', SqlInteger 0,
                 SqlNull, SqlInteger 0]]
      else if q = ''SELECT 1'' then Inr [[SqlInteger 1]]
      else if q = ''SELECT 1 WHERE 0'' then Inr []
      else Inl syntax_error)"

text \<open>A model that gives the replies of a script, one for each call, then fails.\<close>

definition scripted :: "string list \<Rightarrow> event list \<Rightarrow> string \<Rightarrow> py_exception + string" where
  "scripted replies tr prompt =
     (if model_calls tr < length replies then Inr (replies ! model_calls tr)
      else Inl deadline_exceeded)"

definition example_world :: "string list \<Rightarrow> world" where
  "example_world replies =
     \<lparr>path_exists = (\<lambda>p. True), connect = (\<lambda>p. None), fetchall = example_engine,
      generate_content = scripted replies, py_repr = example_repr\<rparr>"

text \<open>The description of that database, and the statements that read it.\<close>

definition example_schema :: string where
  "example_schema =
     table_header ''rain'' @ column_line ''State'' @ column_line ''Recharge from Rainfall-MON'' @
     ''\<newline>''"

definition example_trace :: "event list" where
  "example_trace = [SqlExec STORED_DB table_query, SqlExec STORED_DB (table_info_query ''rain'')]"

definition example_request :: "(string \<times> json) list" where
  "example_request = [(''question'', JStr ''How many?''), (''chat_type'', JStr ''sql-stored'')]"

text \<open>The same, where only the file of the uploaded database exists.\<close>

definition uploaded_world :: "string list \<Rightarrow> world" where
  "uploaded_world replies = (example_world replies)\<lparr>path_exists := (\<lambda>p. p = UPLOADED_DB)\<rparr>"

definition uploaded_trace :: "event list" where
  "uploaded_trace =
     [SqlExec UPLOADED_DB table_query, SqlExec UPLOADED_DB (table_info_query ''rain'')]"

text \<open>The same, over a database that holds only the internal table.\<close>

definition empty_world :: "string list \<Rightarrow> world" where
  "empty_world replies =
     (example_world replies)
       \<lparr>fetchall := (\<lambda>tr db_file q.
          if q = table_query then Inr [[SqlText ''sqlite_sequence'']] else Inl syntax_error)\<rparr>"

text \<open>The same, where the database file cannot be opened.\<close>

definition closed_world :: "string list \<Rightarrow> world" where
  "closed_world replies = (example_world replies)\<lparr>connect := (\<lambda>p. Some cannot_open)\<rparr>"

text \<open>The same, where every execution raises an exception that is not a \<open>SQLAlchemyError\<close>.\<close>

definition value_error :: py_exception where
  "value_error = PyException ''ValueError'' False ''the query contains a null character'' None"

definition faulty_world :: "string list \<Rightarrow> world" where
  "faulty_world replies = (example_world replies)\<lparr>fetchall := (\<lambda>tr db_file q. Inl value_error)\<rparr>"

text \<open>
  A database with one table, named \<open>a`b\<close>, as the route \<open>/upload\<close> creates it from a file
  \<open>a`b.csv\<close>. SQLite answers the statement that quotes the name with the backquote doubled,
  and rejects the one that quotes it as it is.
\<close>

definition near_b_syntax_error :: py_exception where
  "near_b_syntax_error =
     PyException ''OperationalError'' True
       ''(sqlite3.OperationalError) near \"b\": syntax error''
       (Some ''near \"b\": syntax error'')"

definition backquote_world :: world where
  "backquote_world =
     (example_world [])
       \<lparr>fetchall := (\<lambda>tr db_file q.
          if q = table_query then Inr [[SqlText ''a`b'']]
          else if q = ''PRAGMA table_info(`a``b`);''
          then Inr [[SqlInteger 0, SqlText ''x'', SqlText ''BIGINT'', SqlInteger 0, SqlNull, SqlInteger 0]]
          else Inl near_b_syntax_error)\<rparr>"












section \<open>What the description of a database should be\<close>

text \<open>
  The tables of a database, each with its column names, in the order of the catalogue; the
  description lists the tables that are not internal ones.
\<close>

definition internal :: "string \<Rightarrow> bool" where
  "internal name = startswith name ''sqlite_''"

definition describe_table :: "string \<times> string list \<Rightarrow> string" where
  "describe_table t = table_header (fst t) @ concat (map column_line (snd t)) @ ''\<newline>''"

definition describe :: "(string \<times> string list) list \<Rightarrow> string" where
  "describe tables = concat (map describe_table (filter (\<lambda>t. \<not> internal (fst t)) tables))"

text \<open>
  The engine serves these tables on a database file: the connection opens, the table query
  returns their names, and the statement \<open>table_info_query\<close> builds for a table that is
  not internal returns rows whose second fields are its column names.
\<close>

definition serves :: "world \<Rightarrow> string \<Rightarrow> (string \<times> string list) list \<Rightarrow> bool" where
  "serves w db_file tables =
     (connect w db_file = None
      \<and> (\<forall>tr. fetchall w tr db_file table_query = Inr (map (\<lambda>t. [SqlText (fst t)]) tables))
      \<and> (\<forall>tr. \<forall>t\<in>set tables. \<not> internal (fst t) \<longrightarrow>
            (\<exists>rows. fetchall w tr db_file (table_info_query (fst t)) = Inr rows
                  \<and> map (\<lambda>r. getitem r 1) rows = map (\<lambda>c. Inr (SqlText c)) (snd t))))"

section \<open>The query executor\<close>

text \<open>
  Claim C3, as amended. When the connection opens, \<open>execute_sql\<close> returns the rows that the
  engine returns, in their order, and returns the string \<open>SQL Error: \<close> followed by the
  driver's message when the execution raises a \<open>SQLAlchemyError\<close> that wraps a driver
  error. An exception raised while the connection is opened, and an exception of the
  execution that is not a \<open>SQLAlchemyError\<close>, leave the function.
\<close>

theorem execute_sql_outcomes:
  "(connect w db_file = Some e \<longrightarrow> execute_sql w db_file q tr = (Inl e, tr))
   \<and> (connect w db_file = None \<longrightarrow>
        (fetchall w tr db_file q = Inr rows \<longrightarrow>
           execute_sql w db_file q tr = (Inr (Rows rows), tr @ [SqlExec db_file q]))
      \<and> (fetchall w tr db_file q = Inl e' \<and> exc_sqlalchemy e' \<and> exc_orig e' = Some orig \<longrightarrow>
           execute_sql w db_file q tr = (Inr (Message (''SQL Error: '' @ orig)), tr @ [SqlExec db_file q]))
      \<and> (fetchall w tr db_file q = Inl e' \<and> \<not> exc_sqlalchemy e' \<longrightarrow>
           execute_sql w db_file q tr = (Inl e', tr @ [SqlExec db_file q])))"
  by (simp add: execute_sql_def Let_def)

theorem execute_sql_outcomes_witness:
  "execute_sql (closed_world []) ''no_such_dir/sqldb.db'' ''SELECT 1'' [] = (Inl cannot_open, [])
   \<and> execute_sql (example_world []) STORED_DB ''SELECT 1'' [] =
       (Inr (Rows [[SqlInteger 1]]), [SqlExec STORED_DB ''SELECT 1''])
   \<and> execute_sql (example_world []) STORED_DB ''SELEC 1'' [] =
       (Inr (Message ''SQL Error: near \"SELEC\": syntax error''), [SqlExec STORED_DB ''SELEC 1''])
   \<and> execute_sql (faulty_world []) STORED_DB ''SELECT 1'' [] =
       (Inl value_error, [SqlExec STORED_DB ''SELECT 1''])"
proof -
  have c3: "connect (faulty_world []) STORED_DB = None"
    by (simp add: faulty_world_def example_world_def)
  have f3: "fetchall (faulty_world []) [] STORED_DB ''SELECT 1'' = Inl value_error"
    by (simp add: faulty_world_def)
  have o3: "\<not> exc_sqlalchemy value_error"
    by (simp add: value_error_def)
  from execute_sql_outcomes [of "faulty_world []" STORED_DB _ "''SELECT 1''" "[]" _ value_error] c3 f3 o3
  have d: "execute_sql (faulty_world []) STORED_DB ''SELECT 1'' [] =
       (Inl value_error, [SqlExec STORED_DB ''SELECT 1''])"
    by simp
  have c1: "connect (closed_world []) ''no_such_dir/sqldb.db'' = Some cannot_open"
    by (simp add: closed_world_def example_world_def)
  have c2: "connect (example_world []) STORED_DB = None"
    by (simp add: example_world_def)
  have f1: "fetchall (example_world []) [] STORED_DB ''SELECT 1'' = Inr [[SqlInteger 1]]"
    by code_simp
  have f2: "fetchall (example_world []) [] STORED_DB ''SELEC 1'' = Inl syntax_error"
    by code_simp
  have o: "exc_sqlalchemy syntax_error" "exc_orig syntax_error = Some ''near \"SELEC\": syntax error''"
    by (simp_all add: syntax_error_def)
  from execute_sql_outcomes [of "closed_world []" "''no_such_dir/sqldb.db''" cannot_open "''SELECT 1''" "[]"] c1
  have a: "execute_sql (closed_world []) ''no_such_dir/sqldb.db'' ''SELECT 1'' [] = (Inl cannot_open, [])"
    by blast
  from execute_sql_outcomes [of "example_world []" STORED_DB _ "''SELECT 1''" "[]" "[[SqlInteger 1]]"] c2 f1
  have b: "execute_sql (example_world []) STORED_DB ''SELECT 1'' [] =
       (Inr (Rows [[SqlInteger 1]]), [SqlExec STORED_DB ''SELECT 1''])"
    by simp
  from execute_sql_outcomes [of "example_world []" STORED_DB _ "''SELEC 1''" "[]" _ syntax_error
      "''near \"SELEC\": syntax error''"] c2 f2 o
  have c: "execute_sql (example_world []) STORED_DB ''SELEC 1'' [] =
       (Inr (Message ''SQL Error: near \"SELEC\": syntax error''), [SqlExec STORED_DB ''SELEC 1''])"
    by simp
  from a b c d show ?thesis by blast
qed

text \<open>
  A \<open>SQLAlchemyError\<close> that wraps no driver error has no \<open>orig\<close>: reading the attribute in
  the handler raises, and that exception leaves the function too.
\<close>

lemma execute_sql_without_orig:
  "connect w db_file = None \<Longrightarrow> fetchall w tr db_file q = Inl e \<Longrightarrow> exc_sqlalchemy e
   \<Longrightarrow> exc_orig e = None
   \<Longrightarrow> execute_sql w db_file q tr = (Inl (AttributeError (exc_class e) ''orig''), tr @ [SqlExec db_file q])"
  by (simp add: execute_sql_def Let_def)

text \<open>
  Claim C3 as the specification states it fails: where the database file cannot be opened,
  the exception of \<open>engine.connect()\<close> leaves \<open>execute_sql\<close>.
\<close>

theorem execute_sql_raises_counterexample:
  "fst (execute_sql (closed_world []) ''no_such_dir/sqldb.db'' ''SELECT 1'' []) = Inl cannot_open"
  by (simp add: execute_sql_def closed_world_def example_world_def)

section \<open>How an attempt is classified\<close>

lemma not_failed_rows: "\<not> startswith (str_rows w rs) ''SQL Error:''"
  by (simp add: startswith_def str_rows_def)

lemma execute_sql_message:
  "execute_sql w db_file q tr = (Inr (Message m), tr') \<Longrightarrow> startswith m ''SQL Error:''"
  by (auto simp: execute_sql_def Let_def startswith_def split: option.splits sum.splits if_splits)

text \<open>
  Claim C9, as amended. The loop takes an attempt as failed exactly when its \<open>result_str\<close>
  begins with \<open>SQL Error:\<close>. The string of a list of rows begins with a bracket, so an
  execution that returned rows is never taken as failed: an attempt that reached the
  database is taken as failed exactly when \<open>execute_sql\<close> returned its error string.
\<close>

theorem failure_is_the_error_prefix:
  "(failed st \<longleftrightarrow> startswith (result_str st) ''SQL Error:'')
   \<and> \<not> failed \<lparr>sql_query = q, result_str = str_result w (Rows rs)\<rparr>
   \<and> (execute_sql w db_file q tr = (Inr r, tr') \<longrightarrow>
        (failed \<lparr>sql_query = q, result_str = str_result w r\<rparr> \<longleftrightarrow> (\<forall>rows. r \<noteq> Rows rows)))"
proof (intro conjI impI)
  show "failed st \<longleftrightarrow> startswith (result_str st) ''SQL Error:''"
    by (simp add: failed_def)
  show "\<not> failed \<lparr>sql_query = q, result_str = str_result w (Rows rs)\<rparr>"
    by (simp add: failed_def str_result_def not_failed_rows)
  assume ex: "execute_sql w db_file q tr = (Inr r, tr')"
  show "failed \<lparr>sql_query = q, result_str = str_result w r\<rparr> \<longleftrightarrow> (\<forall>rows. r \<noteq> Rows rows)"
  proof (cases r)
    case (Rows rs')
    then show ?thesis
      by (simp add: failed_def str_result_def not_failed_rows)
  next
    case (Message m)
    with ex have "startswith m ''SQL Error:''"
      by (simp add: execute_sql_message)
    with Message show ?thesis
      by (simp add: failed_def str_result_def)
  qed
qed

theorem failure_is_the_error_prefix_witness:
  "execute_sql (example_world []) STORED_DB ''SELECT 1'' [] =
     (Inr (Rows [[SqlInteger 1]]), [SqlExec STORED_DB ''SELECT 1''])
   \<and> \<not> failed \<lparr>sql_query = ''SELECT 1'',
                result_str = str_result (example_world []) (Rows [[SqlInteger 1]])\<rparr>"
proof -
  have ex: "execute_sql (example_world []) STORED_DB ''SELECT 1'' [] =
     (Inr (Rows [[SqlInteger 1]]), [SqlExec STORED_DB ''SELECT 1''])"
    by code_simp
  from failure_is_the_error_prefix [of _ "''SELECT 1''" "example_world []" "[[SqlInteger 1]]"
      STORED_DB "[]" "Rows [[SqlInteger 1]]" "[SqlExec STORED_DB ''SELECT 1'']"] ex
  show ?thesis by blast
qed

text \<open>
  Claim C9 as stated fails in its second half: no execution that returned rows has a
  \<open>result_str\<close> that the loop takes as a failure.
\<close>

theorem rows_taken_as_failure_counterexample:
  "\<not> (\<exists>w q rs. failed \<lparr>sql_query = q, result_str = str_result w (Rows rs)\<rparr>)"
  by (simp add: failed_def str_result_def not_failed_rows)

section \<open>The search finds exactly the delimited blocks\<close>

lemma fence_not_space: "dropWhile isspace (fence @ post) = fence @ post"
  by (simp add: fence_def isspace_def)

lemma closes_fence: "closes (fence @ post)"
  by (simp add: closes_def fence_not_space)

lemma closes_decompose: "closes s \<Longrightarrow> \<exists>ws post. s = ws @ fence @ post"
proof -
  assume "closes s"
  then obtain post where "dropWhile isspace s = fence @ post"
    by (auto simp: closes_def prefix_def)
  then have "s = takeWhile isspace s @ fence @ post"
    by (metis takeWhile_dropWhile_id)
  then show ?thesis by blast
qed

lemma fence_cons: "fence @ post = CHR 0x60 # CHR 0x60 # CHR 0x60 # post"
  by (simp add: fence_def)

lemma lazy_group_finds: "lazy_group (mid @ fence @ post) \<noteq> None"
proof (induction mid)
  case Nil
  have "closes (CHR 0x60 # CHR 0x60 # CHR 0x60 # post)"
    using closes_fence [of post] by (simp only: fence_cons)
  then have "lazy_group (CHR 0x60 # CHR 0x60 # CHR 0x60 # post) = Some []"
    by (simp only: lazy_group.simps if_True)
  then show ?case by (simp only: append_Nil fence_cons) simp
next
  case (Cons c mid)
  then show ?case by (simp del: closes_def)
qed

lemma lazy_group_found: "lazy_group s = Some g \<Longrightarrow> \<exists>mid post. s = mid @ fence @ post"
proof (induction s arbitrary: g)
  case Nil
  then show ?case by simp
next
  case (Cons c cs)
  show ?case
  proof (cases "closes (c # cs)")
    case True
    then show ?thesis using closes_decompose by blast
  next
    case False
    with Cons.prems obtain g' where "lazy_group cs = Some g'" by auto
    then obtain mid post where "cs = mid @ fence @ post" using Cons.IH by blast
    then have "c # cs = (c # mid) @ fence @ post" by simp
    then show ?thesis by blast
  qed
qed

lemma lazy_group_iff: "lazy_group s \<noteq> None \<longleftrightarrow> (\<exists>mid post. s = mid @ fence @ post)"
proof
  assume "lazy_group s \<noteq> None"
  then obtain g where "lazy_group s = Some g" by blast
  then show "\<exists>mid post. s = mid @ fence @ post" by (rule lazy_group_found)
next
  assume "\<exists>mid post. s = mid @ fence @ post"
  then obtain mid post where "s = mid @ fence @ post" by blast
  then show "lazy_group s \<noteq> None" using lazy_group_finds by simp
qed

lemma greedy_space_iff: "greedy_space s \<noteq> None \<longleftrightarrow> (\<exists>mid post. s = mid @ fence @ post)"
proof (induction s)
  case Nil
  then show ?case using lazy_group_iff [of "[]"] by simp
next
  case (Cons c cs)
  show ?case
  proof (cases "isspace c \<and> greedy_space cs \<noteq> None")
    case True
    then obtain mid post where "cs = mid @ fence @ post" using Cons.IH by blast
    then have "c # cs = (c # mid) @ fence @ post" by simp
    then have ex: "\<exists>mid post. c # cs = mid @ fence @ post" by blast
    from True obtain g where "greedy_space cs = Some g" by blast
    with True have "greedy_space (c # cs) = Some g" by simp
    with ex show ?thesis by simp
  next
    case False
    then have "greedy_space (c # cs) = lazy_group (c # cs)"
      by (cases "greedy_space cs") (simp_all del: lazy_group.simps)
    then show ?thesis using lazy_group_iff [of "c # cs"] by (simp only:)
  qed
qed

lemma opens_iff:
  "opens s = Some rest \<longleftrightarrow> (\<exists>tag. s = tag @ rest \<and> lower tag = fence @ ''sql'')"
proof
  assume "opens s = Some rest"
  then have "6 \<le> length s" "lower (take 6 s) = fence @ ''sql''" "rest = drop 6 s"
    by (auto simp: opens_def split: if_splits)
  then have "s = take 6 s @ rest \<and> lower (take 6 s) = fence @ ''sql''" by simp
  then show "\<exists>tag. s = tag @ rest \<and> lower tag = fence @ ''sql''" by blast
next
  assume "\<exists>tag. s = tag @ rest \<and> lower tag = fence @ ''sql''"
  then obtain tag where o: "s = tag @ rest" "lower tag = fence @ ''sql''" by blast
  from o(2) have "length (lower tag) = 6" by (simp add: fence_def)
  then have "length tag = 6" by (simp add: lower_def)
  with o show "opens s = Some rest" by (simp add: opens_def)
qed

lemma match_at_iff:
  "match_at s \<noteq> None \<longleftrightarrow>
     (\<exists>tag mid post. s = tag @ mid @ fence @ post \<and> lower tag = fence @ ''sql'')"
proof
  assume "match_at s \<noteq> None"
  then obtain rest where r: "opens s = Some rest" "greedy_space rest \<noteq> None"
    by (auto simp: match_at_def split: option.splits)
  from r(1) obtain tag where t: "s = tag @ rest" "lower tag = fence @ ''sql''"
    using opens_iff by blast
  from r(2) obtain mid post where "rest = mid @ fence @ post"
    using greedy_space_iff by blast
  with t show "\<exists>tag mid post. s = tag @ mid @ fence @ post \<and> lower tag = fence @ ''sql''"
    by blast
next
  assume "\<exists>tag mid post. s = tag @ mid @ fence @ post \<and> lower tag = fence @ ''sql''"
  then obtain tag mid post where
    d: "s = tag @ (mid @ fence @ post)" "lower tag = fence @ ''sql''" by auto
  then have "opens s = Some (mid @ fence @ post)" using opens_iff by blast
  moreover have "greedy_space (mid @ fence @ post) \<noteq> None" using greedy_space_iff by blast
  ultimately show "match_at s \<noteq> None" by (simp add: match_at_def)
qed

lemma re_search_iff: "re_search s \<noteq> None \<longleftrightarrow> (\<exists>pre. match_at (drop pre s) \<noteq> None)"
proof (induction s)
  case Nil
  then show ?case by simp
next
  case (Cons c cs)
  show ?case
  proof (cases "match_at (c # cs)")
    case (Some g)
    then have "match_at (drop 0 (c # cs)) \<noteq> None" by simp
    then have "\<exists>pre. match_at (drop pre (c # cs)) \<noteq> None" by blast
    with Some show ?thesis by simp
  next
    case None
    have "(\<exists>pre. match_at (drop pre (c # cs)) \<noteq> None) \<longleftrightarrow> (\<exists>pre. match_at (drop pre cs) \<noteq> None)"
    proof
      assume "\<exists>pre. match_at (drop pre (c # cs)) \<noteq> None"
      then obtain pre where p: "match_at (drop pre (c # cs)) \<noteq> None" by blast
      with None obtain k where "pre = Suc k" by (cases pre) auto
      with p show "\<exists>pre. match_at (drop pre cs) \<noteq> None" by auto
    next
      assume "\<exists>pre. match_at (drop pre cs) \<noteq> None"
      then obtain pre where "match_at (drop (Suc pre) (c # cs)) \<noteq> None" by auto
      then show "\<exists>pre. match_at (drop pre (c # cs)) \<noteq> None" by blast
    qed
    with None Cons.IH show ?thesis by simp
  qed
qed

lemma re_search_has_sql_block: "re_search raw \<noteq> None \<longleftrightarrow> has_sql_block raw"
proof
  assume "re_search raw \<noteq> None"
  then obtain pre where "match_at (drop pre raw) \<noteq> None" using re_search_iff by blast
  then obtain tag mid post where
    d: "drop pre raw = tag @ mid @ fence @ post" "lower tag = fence @ ''sql''"
    using match_at_iff by blast
  have "raw = take pre raw @ drop pre raw" by simp
  with d have "raw = take pre raw @ tag @ mid @ fence @ post" by simp
  with d show "has_sql_block raw" unfolding has_sql_block_def by blast
next
  assume "has_sql_block raw"
  then obtain pre tag mid post where
    d: "raw = pre @ tag @ mid @ fence @ post" "lower tag = fence @ ''sql''"
    unfolding has_sql_block_def by blast
  then have "drop (length pre) raw = tag @ mid @ fence @ post" by simp
  with d have "match_at (drop (length pre) raw) \<noteq> None" using match_at_iff by blast
  then show "re_search raw \<noteq> None" using re_search_iff by blast
qed

section \<open>The loop of attempts\<close>

lemma range_max_retries: "[0..<max_retries] = [0, Suc 0]"
  by (simp add: max_retries_def upt_rec)

lemma attempts_loop_two:
  "attempts_loop w d s q [0..<max_retries] st tr =
     (case attempt_body w d s q 0 st tr of
        (Inl e, t1) \<Rightarrow> (Inl e, t1)
      | (Inr st1, t1) \<Rightarrow>
          if \<not> failed st1 then (Inr st1, t1) else attempt_body w d s q (Suc 0) st1 t1)"
  by (simp add: range_max_retries split: prod.splits sum.splits)

lemma attempt_body_no_block:
  assumes "generate_content w tr (attempt_prompt s q a st) = Inr raw" and "re_search raw = None"
  shows "attempt_body w d s q a st tr =
           (Inr \<lparr>sql_query = raw, result_str = no_block_error\<rparr>, tr @ [ModelCall (attempt_prompt s q a st)])"
  using assms by (simp add: attempt_body_def ask_gemini_def Let_def)

lemma attempt_body_executed:
  assumes "generate_content w tr (attempt_prompt s q a st) = Inr raw" and "re_search raw = Some g"
    and "execute_sql w d (strip g) (tr @ [ModelCall (attempt_prompt s q a st)]) = (Inr r, tr2)"
  shows "attempt_body w d s q a st tr =
           (Inr \<lparr>sql_query = strip g, result_str = str_result w r\<rparr>, tr2)"
  using assms by (simp add: attempt_body_def ask_gemini_def Let_def)

lemma failed_no_block: "failed \<lparr>sql_query = raw, result_str = no_block_error\<rparr>"
  by (simp add: failed_def startswith_def no_block_error_def)

lemma model_calls_append: "model_calls (tr @ tr') = model_calls tr + model_calls tr'"
  by (simp add: model_calls_def)

lemma executions_append: "executions (tr @ tr') = executions tr + executions tr'"
  by (simp add: executions_def)

lemma execute_sql_trace:
  "snd (execute_sql w d q tr) = tr \<or> snd (execute_sql w d q tr) = tr @ [SqlExec d q]"
  by (simp add: execute_sql_def Let_def split: option.splits sum.splits)

lemma attempt_body_trace:
  "\<exists>rest. snd (attempt_body w d s q a st tr) = tr @ ModelCall (attempt_prompt s q a st) # rest
     \<and> model_calls rest = 0 \<and> executions rest \<le> 1"
proof (cases "generate_content w tr (attempt_prompt s q a st)")
  case (Inl e)
  then have "snd (attempt_body w d s q a st tr) = tr @ ModelCall (attempt_prompt s q a st) # []"
    by (simp add: attempt_body_def ask_gemini_def Let_def)
  then show ?thesis by (simp add: model_calls_def executions_def)
next
  case (Inr raw)
  show ?thesis
  proof (cases "re_search raw")
    case None
    with Inr have "snd (attempt_body w d s q a st tr) = tr @ ModelCall (attempt_prompt s q a st) # []"
      by (simp add: attempt_body_no_block)
    then show ?thesis by (simp add: model_calls_def executions_def)
  next
    case (Some g)
    let ?tr1 = "tr @ [ModelCall (attempt_prompt s q a st)]"
    have eq: "snd (attempt_body w d s q a st tr) = snd (execute_sql w d (strip g) ?tr1)"
      using Inr Some
      by (simp add: attempt_body_def ask_gemini_def Let_def split: prod.splits sum.splits)
    from execute_sql_trace [of w d "strip g" ?tr1]
    show ?thesis
    proof
      assume "snd (execute_sql w d (strip g) ?tr1) = ?tr1"
      with eq have "snd (attempt_body w d s q a st tr) = tr @ ModelCall (attempt_prompt s q a st) # []"
        by simp
      then show ?thesis by (simp add: model_calls_def executions_def)
    next
      assume "snd (execute_sql w d (strip g) ?tr1) = ?tr1 @ [SqlExec d (strip g)]"
      with eq have "snd (attempt_body w d s q a st tr) =
          tr @ ModelCall (attempt_prompt s q a st) # [SqlExec d (strip g)]"
        by simp
      moreover have "model_calls [SqlExec d (strip g)] = 0" "executions [SqlExec d (strip g)] \<le> 1"
        by (simp_all add: model_calls_def executions_def)
      ultimately show ?thesis by blast
    qed
  qed
qed

lemma attempt_body_model_calls:
  "model_calls (snd (attempt_body w d s q a st tr)) = Suc (model_calls tr)"
proof -
  obtain rest where "snd (attempt_body w d s q a st tr) = tr @ ModelCall (attempt_prompt s q a st) # rest"
    "model_calls rest = 0"
    using attempt_body_trace by blast
  then show ?thesis by (simp add: model_calls_def)
qed

lemma attempts_loop_model_calls:
  "model_calls (snd (attempts_loop w d s q as st tr)) \<le> model_calls tr + length as"
proof (induction as arbitrary: st tr)
  case Nil
  then show ?case by simp
next
  case (Cons a as)
  obtain res tr' where b: "attempt_body w d s q a st tr = (res, tr')" by (cases "attempt_body w d s q a st tr")
  then have m: "model_calls tr' = Suc (model_calls tr)"
    using attempt_body_model_calls [of w d s q a st tr] by simp
  show ?case
  proof (cases res)
    case (Inl e)
    with b m show ?thesis by simp
  next
    case (Inr st')
    show ?thesis
    proof (cases "failed st'")
      case False
      with b Inr m show ?thesis by simp
    next
      case True
      have "model_calls (snd (attempts_loop w d s q as st' tr')) \<le> model_calls tr' + length as"
        by (rule Cons.IH)
      with b Inr True m show ?thesis by simp
    qed
  qed
qed

lemma failed_attempt_cases:
  assumes "attempt_body w d s q a st tr = (Inr st', tr')" and "failed st'"
  shows "result_str st' = no_block_error \<or> (\<exists>orig. result_str st' = ''SQL Error: '' @ orig)"
proof (cases "generate_content w tr (attempt_prompt s q a st)")
  case (Inl e)
  with assms(1) show ?thesis by (simp add: attempt_body_def ask_gemini_def Let_def)
next
  case (Inr raw)
  show ?thesis
  proof (cases "re_search raw")
    case None
    with Inr assms(1) show ?thesis by (auto simp: attempt_body_no_block)
  next
    case (Some g)
    let ?tr1 = "tr @ [ModelCall (attempt_prompt s q a st)]"
    obtain res tr2 where e: "execute_sql w d (strip g) ?tr1 = (res, tr2)"
      by (cases "execute_sql w d (strip g) ?tr1")
    with Inr Some assms(1) obtain r where r: "res = Inr r" "st' = \<lparr>sql_query = strip g, result_str = str_result w r\<rparr>"
      by (cases res) (auto simp: attempt_body_def ask_gemini_def Let_def)
    show ?thesis
    proof (cases r)
      case (Rows rs)
      with r assms(2) show ?thesis by (simp add: failed_def str_result_def not_failed_rows)
    next
      case (Message m)
      with e r have "\<exists>orig. m = ''SQL Error: '' @ orig"
        by (auto simp: execute_sql_def Let_def split: option.splits sum.splits if_splits)
      with Message r show ?thesis by (simp add: str_result_def)
    qed
  qed
qed

lemma succeeded_attempt_rows:
  assumes "attempt_body w d s q a st tr = (Inr st', tr')" and "\<not> failed st'"
  shows "\<exists>raw g rs. generate_content w tr (attempt_prompt s q a st) = Inr raw
           \<and> re_search raw = Some g
           \<and> fetchall w (tr @ [ModelCall (attempt_prompt s q a st)]) d (strip g) = Inr rs
           \<and> st' = \<lparr>sql_query = strip g, result_str = str_rows w rs\<rparr>
           \<and> tr' = tr @ [ModelCall (attempt_prompt s q a st), SqlExec d (strip g)]"
proof (cases "generate_content w tr (attempt_prompt s q a st)")
  case (Inl e)
  with assms(1) show ?thesis by (simp add: attempt_body_def ask_gemini_def Let_def)
next
  case (Inr raw)
  show ?thesis
  proof (cases "re_search raw")
    case None
    with Inr assms(1) have "st' = \<lparr>sql_query = raw, result_str = no_block_error\<rparr>"
      by (auto simp: attempt_body_no_block)
    with assms(2) show ?thesis by (simp add: failed_no_block)
  next
    case (Some g)
    let ?tr1 = "tr @ [ModelCall (attempt_prompt s q a st)]"
    obtain res tr2 where e: "execute_sql w d (strip g) ?tr1 = (res, tr2)"
      by (cases "execute_sql w d (strip g) ?tr1")
    with Inr Some assms(1) obtain r where r: "res = Inr r"
        "st' = \<lparr>sql_query = strip g, result_str = str_result w r\<rparr>" "tr' = tr2"
      by (cases res) (auto simp: attempt_body_def ask_gemini_def Let_def)
    show ?thesis
    proof (cases r)
      case (Rows rs)
      with e r have "fetchall w ?tr1 d (strip g) = Inr rs \<and> tr2 = ?tr1 @ [SqlExec d (strip g)]"
        by (auto simp: execute_sql_def Let_def split: option.splits sum.splits if_splits)
      with Inr Some Rows r show ?thesis by (simp add: str_result_def)
    next
      case (Message m)
      with e r have "\<exists>orig. m = ''SQL Error: '' @ orig"
        by (auto simp: execute_sql_def Let_def split: option.splits sum.splits if_splits)
      with Message r assms(2) show ?thesis by (auto simp: str_result_def failed_def startswith_def)
    qed
  qed
qed

section \<open>The retry budget\<close>

lemma ask_after_loop:
  assumes "db_file = select_db (dict_get data ''chat_type'')"
    and "question = str_json (dict_get data ''question'')"
    and "path_exists w db_file"
    and "get_db_schema w db_file [] = (Inr db_schema, tr0)" and "db_schema \<noteq> []"
    and "attempts_loop w db_file db_schema question [0..<max_retries]
           \<lparr>sql_query = [], result_str = []\<rparr> tr0 = (Inr st, tr1)"
  shows "ask w data =
     (if failed st then (Response 200 [(''answer'', failure_message (result_str st))], tr1)
      else
        (case generate_content w tr1 (answer_prompt question (result_str st)) of
           Inl e \<Rightarrow>
             (Response 500 [(''error'', ''An unexpected error occurred: '' @ exc_str e)],
              tr1 @ [ModelCall (answer_prompt question (result_str st))])
         | Inr answer \<Rightarrow>
             (Response 200 [(''answer'', answer)],
              tr1 @ [ModelCall (answer_prompt question (result_str st))])))"
  using assms by (simp add: ask_def ask_try_def Let_def ask_gemini_def split: sum.splits)

text \<open>
  Claim C1. The loop makes at most two attempts. When attempt 0 fails, by a failed
  extraction or by an error of the execution, and attempt 1 succeeds, the result of attempt 1
  is the string of the rows that its statement returned; the route sends the model the
  question and that string, in the text \<open>User Question: ... SQL Result: ...\<close>, and answers
  with the model's reply. When both fail, it answers with the text
  \<open>I tried to answer, but the process failed with an error: \<close> followed by the error of
  attempt 1, and nothing is sent to the model or to the database after attempt 1.
\<close>

theorem retry_budget_two_attempts:
  assumes "db_file = select_db (dict_get data ''chat_type'')"
    and "question = str_json (dict_get data ''question'')"
    and "path_exists w db_file"
    and "get_db_schema w db_file [] = (Inr db_schema, tr0)" and "db_schema \<noteq> []"
    and "attempt_body w db_file db_schema question 0 \<lparr>sql_query = [], result_str = []\<rparr> tr0
           = (Inr st1, tr1)"
    and "failed st1"
    and "attempt_body w db_file db_schema question 1 st1 tr1 = (Inr st2, tr2)"
  shows "(\<not> failed st2 \<longrightarrow>
            generate_content w tr2
              (''User Question: '' @ question @ ''\<newline>SQL Result: '' @ result_str st2 @
               ''\<newline>\<newline>Provide a clear, natural language answer.'') = Inr answer \<longrightarrow>
            ask w data =
              (Response 200 [(''answer'', answer)],
               tr2 @ [ModelCall
                 (''User Question: '' @ question @ ''\<newline>SQL Result: '' @ result_str st2 @
                  ''\<newline>\<newline>Provide a clear, natural language answer.'')]))
       \<and> (\<not> failed st2 \<longrightarrow>
            (\<exists>raw g rs. generate_content w tr1 (retry_prompt db_schema question (sql_query st1) (result_str st1)) = Inr raw
               \<and> re_search raw = Some g
               \<and> fetchall w (tr1 @ [ModelCall (retry_prompt db_schema question (sql_query st1) (result_str st1))])
                    db_file (strip g) = Inr rs
               \<and> result_str st2 = str_rows w rs
               \<and> tr2 = tr1 @ [ModelCall (retry_prompt db_schema question (sql_query st1) (result_str st1)),
                              SqlExec db_file (strip g)]))
       \<and> (failed st2 \<longrightarrow>
            ask w data =
              (Response 200
                 [(''answer'',
                   ''I tried to answer, but the process failed with an error: '' @ result_str st2)],
               tr2))
       \<and> (failed st2 \<longrightarrow>
            result_str st2 = no_block_error \<or> (\<exists>orig. result_str st2 = ''SQL Error: '' @ orig))
       \<and> model_calls tr2 = model_calls tr0 + 2
       \<and> (result_str st1 = no_block_error \<or> (\<exists>orig. result_str st1 = ''SQL Error: '' @ orig))
       \<and> (\<forall>st tr. model_calls (snd (attempts_loop w db_file db_schema question [0..<max_retries] st tr))
                     \<le> model_calls tr + 2)"
proof -
  let ?p = "''User Question: '' @ question @ ''\<newline>SQL Result: '' @ result_str st2 @
               ''\<newline>\<newline>Provide a clear, natural language answer.''"
  let ?r = "retry_prompt db_schema question (sql_query st1) (result_str st1)"
  have p: "answer_prompt question (result_str st2) = ?p"
    by (simp add: answer_prompt_def)
  have loop: "attempts_loop w db_file db_schema question [0..<max_retries]
           \<lparr>sql_query = [], result_str = []\<rparr> tr0 = (Inr st2, tr2)"
    using assms(6,7,8) by (simp add: attempts_loop_two)
  note flow = ask_after_loop [OF assms(1-5) loop]
  have a: "\<not> failed st2 \<longrightarrow> generate_content w tr2 ?p = Inr answer \<longrightarrow>
            ask w data = (Response 200 [(''answer'', answer)], tr2 @ [ModelCall ?p])"
    using flow unfolding p by simp
  have a': "\<not> failed st2 \<longrightarrow>
            (\<exists>raw g rs. generate_content w tr1 ?r = Inr raw
               \<and> re_search raw = Some g
               \<and> fetchall w (tr1 @ [ModelCall ?r]) db_file (strip g) = Inr rs
               \<and> result_str st2 = str_rows w rs
               \<and> tr2 = tr1 @ [ModelCall ?r, SqlExec db_file (strip g)])"
  proof
    assume "\<not> failed st2"
    from succeeded_attempt_rows [OF assms(8) this]
    obtain raw g rs where "generate_content w tr1 (attempt_prompt db_schema question 1 st1) = Inr raw"
      "re_search raw = Some g"
      "fetchall w (tr1 @ [ModelCall (attempt_prompt db_schema question 1 st1)]) db_file (strip g) = Inr rs"
      "st2 = \<lparr>sql_query = strip g, result_str = str_rows w rs\<rparr>"
      "tr2 = tr1 @ [ModelCall (attempt_prompt db_schema question 1 st1), SqlExec db_file (strip g)]"
      by blast
    moreover have "attempt_prompt db_schema question 1 st1 = ?r"
      by (simp add: attempt_prompt_def)
    ultimately show "\<exists>raw g rs. generate_content w tr1 ?r = Inr raw
               \<and> re_search raw = Some g
               \<and> fetchall w (tr1 @ [ModelCall ?r]) db_file (strip g) = Inr rs
               \<and> result_str st2 = str_rows w rs
               \<and> tr2 = tr1 @ [ModelCall ?r, SqlExec db_file (strip g)]"
      by auto
  qed
  have b: "failed st2 \<longrightarrow>
            ask w data =
              (Response 200
                 [(''answer'',
                   ''I tried to answer, but the process failed with an error: '' @ result_str st2)],
               tr2)"
    using flow by (simp add: failure_message_def)
  have b': "failed st2 \<longrightarrow>
            result_str st2 = no_block_error \<or> (\<exists>orig. result_str st2 = ''SQL Error: '' @ orig)"
    using failed_attempt_cases [OF assms(8)] by blast
  have "model_calls tr1 = Suc (model_calls tr0)"
    using attempt_body_model_calls [of w db_file db_schema question 0 "\<lparr>sql_query = [], result_str = []\<rparr>" tr0] assms(6)
    by simp
  moreover have "model_calls tr2 = Suc (model_calls tr1)"
    using attempt_body_model_calls [of w db_file db_schema question 1 st1 tr1] assms(8) by simp
  ultimately have c: "model_calls tr2 = model_calls tr0 + 2" by simp
  have d: "result_str st1 = no_block_error \<or> (\<exists>orig. result_str st1 = ''SQL Error: '' @ orig)"
    using failed_attempt_cases [OF assms(6,7)] .
  have e: "\<forall>st tr. model_calls (snd (attempts_loop w db_file db_schema question [0..<max_retries] st tr))
                     \<le> model_calls tr + 2"
    using attempts_loop_model_calls [of w db_file db_schema question "[0..<max_retries]"]
    by (simp add: max_retries_def)
  from a a' b b' c d e show ?thesis by blast
qed

lemma example_get_db_schema:
  "get_db_schema (example_world rs) STORED_DB [] = (Inr example_schema, example_trace)"
  by code_simp

lemma example_request_fields:
  "STORED_DB = select_db (dict_get example_request ''chat_type'')"
  "''How many?'' = str_json (dict_get example_request ''question'')"
  by code_simp+

lemma example_schema_not_empty: "example_schema \<noteq> []"
  by code_simp

theorem retry_budget_two_attempts_witness:
  "ask (example_world [''no sql here'', ''```sql\<newline>SELECT 1\<newline>```'', ''The answer is 1.''])
       example_request =
     (Response 200 [(''answer'', ''The answer is 1.'')],
      example_trace @
      [ModelCall (first_prompt example_schema ''How many?''),
       ModelCall (retry_prompt example_schema ''How many?'' ''no sql here'' no_block_error),
       SqlExec STORED_DB ''SELECT 1'',
       ModelCall ''User Question: How many?\<newline>SQL Result: [(1,)]\<newline>\<newline>Provide a clear, natural language answer.''])
   \<and> ask (example_world [''no sql here'', ''```sql SELEC 1```'']) example_request =
     (Response 200
        [(''answer'',
          ''I tried to answer, but the process failed with an error: SQL Error: near \"SELEC\": syntax error'')],
      example_trace @
      [ModelCall (first_prompt example_schema ''How many?''),
       ModelCall (retry_prompt example_schema ''How many?'' ''no sql here'' no_block_error),
       SqlExec STORED_DB ''SELEC 1''])"
proof -
  let ?w1 = "example_world [''no sql here'', ''```sql\<newline>SELECT 1\<newline>```'', ''The answer is 1.'']"
  let ?w2 = "example_world [''no sql here'', ''```sql SELEC 1```'']"
  let ?st1 = "\<lparr>sql_query = ''no sql here'', result_str = no_block_error\<rparr>"
  let ?tr1 = "example_trace @ [ModelCall (first_prompt example_schema ''How many?'')]"
  let ?p1 = "retry_prompt example_schema ''How many?'' ''no sql here'' no_block_error"
  let ?a = "''User Question: How many?\<newline>SQL Result: [(1,)]\<newline>\<newline>Provide a clear, natural language answer.''"
  have px: "path_exists ?w1 STORED_DB" "path_exists ?w2 STORED_DB"
    by (simp_all add: example_world_def)
  have f: "failed ?st1" by (rule failed_no_block)
  have a0: "attempt_body ?w1 STORED_DB example_schema ''How many?'' 0
              \<lparr>sql_query = [], result_str = []\<rparr> example_trace = (Inr ?st1, ?tr1)"
    by code_simp
  have a1: "attempt_body ?w1 STORED_DB example_schema ''How many?'' 1 ?st1 ?tr1 =
      (Inr \<lparr>sql_query = ''SELECT 1'', result_str = ''[(1,)]''\<rparr>,
       ?tr1 @ [ModelCall ?p1, SqlExec STORED_DB ''SELECT 1''])"
    by code_simp
  have ok: "\<not> failed \<lparr>sql_query = ''SELECT 1'', result_str = ''[(1,)]''\<rparr>"
    by code_simp
  have t: "''User Question: '' @ ''How many?'' @ ''\<newline>SQL Result: '' @
             result_str \<lparr>sql_query = ''SELECT 1'', result_str = ''[(1,)]''\<rparr> @
             ''\<newline>\<newline>Provide a clear, natural language answer.'' = ?a"
    by simp
  have g: "generate_content ?w1 (?tr1 @ [ModelCall ?p1, SqlExec STORED_DB ''SELECT 1'']) ?a =
           Inr ''The answer is 1.''"
    by code_simp
  have b0: "attempt_body ?w2 STORED_DB example_schema ''How many?'' 0
              \<lparr>sql_query = [], result_str = []\<rparr> example_trace = (Inr ?st1, ?tr1)"
    by code_simp
  have b1: "attempt_body ?w2 STORED_DB example_schema ''How many?'' 1 ?st1 ?tr1 =
      (Inr \<lparr>sql_query = ''SELEC 1'', result_str = ''SQL Error: near \"SELEC\": syntax error''\<rparr>,
       ?tr1 @ [ModelCall ?p1, SqlExec STORED_DB ''SELEC 1''])"
    by code_simp
  have bad: "failed \<lparr>sql_query = ''SELEC 1'', result_str = ''SQL Error: near \"SELEC\": syntax error''\<rparr>"
    by code_simp
  from retry_budget_two_attempts [OF example_request_fields px(1) example_get_db_schema
      example_schema_not_empty a0 f a1, of "''The answer is 1.''"] ok g
  have r1: "ask ?w1 example_request =
     (Response 200 [(''answer'', ''The answer is 1.'')],
      (?tr1 @ [ModelCall ?p1, SqlExec STORED_DB ''SELECT 1'']) @ [ModelCall ?a])"
    unfolding t by blast
  from retry_budget_two_attempts [OF example_request_fields px(2) example_get_db_schema
      example_schema_not_empty b0 f b1] bad
  have r2: "ask ?w2 example_request =
     (Response 200
        [(''answer'',
          ''I tried to answer, but the process failed with an error: SQL Error: near \"SELEC\": syntax error'')],
      ?tr1 @ [ModelCall ?p1, SqlExec STORED_DB ''SELEC 1''])"
    by simp
  from r1 r2 show ?thesis by simp
qed

text \<open>
  Claim C2. A response of the model without a delimited SQL block makes the attempt record
  the fixed error message, with the whole response as the failed query, and sends nothing to
  the database. After such a first response the loop makes exactly one more attempt, whose
  outcome is the outcome of the loop; when that response has no block either, the route
  answers with the failure message and the only effects are the two calls of the model.
\<close>

theorem no_sql_block_is_retried_once:
  assumes "db_file = select_db (dict_get data ''chat_type'')"
    and "question = str_json (dict_get data ''question'')"
    and "path_exists w db_file"
    and "get_db_schema w db_file [] = (Inr db_schema, tr0)" and "db_schema \<noteq> []"
    and "generate_content w tr0 (first_prompt db_schema question) = Inr raw0"
    and "\<not> has_sql_block raw0"
  shows "(\<forall>attempt st tr raw.
            generate_content w tr (attempt_prompt db_schema question attempt st) = Inr raw
              \<and> \<not> has_sql_block raw \<longrightarrow>
            attempt_body w db_file db_schema question attempt st tr =
              (Inr \<lparr>sql_query = raw, result_str = no_block_error\<rparr>,
               tr @ [ModelCall (attempt_prompt db_schema question attempt st)]))
       \<and> failed \<lparr>sql_query = raw0, result_str = no_block_error\<rparr>
       \<and> attempts_loop w db_file db_schema question [0..<max_retries]
            \<lparr>sql_query = [], result_str = []\<rparr> tr0 =
          attempt_body w db_file db_schema question 1
            \<lparr>sql_query = raw0, result_str = no_block_error\<rparr>
            (tr0 @ [ModelCall (first_prompt db_schema question)])
       \<and> (generate_content w (tr0 @ [ModelCall (first_prompt db_schema question)])
             (retry_prompt db_schema question raw0 no_block_error) = Inr raw1
           \<and> \<not> has_sql_block raw1 \<longrightarrow>
           ask w data =
             (Response 200 [(''answer'', failure_message no_block_error)],
              tr0 @ [ModelCall (first_prompt db_schema question),
                     ModelCall (retry_prompt db_schema question raw0 no_block_error)]))"
proof -
  let ?init = "\<lparr>sql_query = [], result_str = []\<rparr>"
  let ?st1 = "\<lparr>sql_query = raw0, result_str = no_block_error\<rparr>"
  let ?tr1 = "tr0 @ [ModelCall (first_prompt db_schema question)]"
  have step: "\<And>attempt st tr raw.
      generate_content w tr (attempt_prompt db_schema question attempt st) = Inr raw
      \<Longrightarrow> \<not> has_sql_block raw
      \<Longrightarrow> attempt_body w db_file db_schema question attempt st tr =
              (Inr \<lparr>sql_query = raw, result_str = no_block_error\<rparr>,
               tr @ [ModelCall (attempt_prompt db_schema question attempt st)])"
  proof -
    fix attempt st tr raw
    assume g: "generate_content w tr (attempt_prompt db_schema question attempt st) = Inr raw"
      and n: "\<not> has_sql_block raw"
    from n have "re_search raw = None" using re_search_has_sql_block [of raw] by simp
    with g show "attempt_body w db_file db_schema question attempt st tr =
              (Inr \<lparr>sql_query = raw, result_str = no_block_error\<rparr>,
               tr @ [ModelCall (attempt_prompt db_schema question attempt st)])"
      by (rule attempt_body_no_block)
  qed
  have p0: "attempt_prompt db_schema question 0 ?init = first_prompt db_schema question"
    by (simp add: attempt_prompt_def)
  have p1: "attempt_prompt db_schema question 1 ?st1 =
              retry_prompt db_schema question raw0 no_block_error"
    by (simp add: attempt_prompt_def)
  have a0: "attempt_body w db_file db_schema question 0 ?init tr0 = (Inr ?st1, ?tr1)"
    using step [of tr0 0 ?init raw0] assms(6,7) p0 by simp
  have loop: "attempts_loop w db_file db_schema question [0..<max_retries] ?init tr0 =
          attempt_body w db_file db_schema question 1 ?st1 ?tr1"
    using a0 failed_no_block [of raw0] by (simp add: attempts_loop_two)
  have both: "generate_content w ?tr1 (retry_prompt db_schema question raw0 no_block_error) = Inr raw1
           \<and> \<not> has_sql_block raw1 \<longrightarrow>
           ask w data =
             (Response 200 [(''answer'', failure_message no_block_error)],
              tr0 @ [ModelCall (first_prompt db_schema question),
                     ModelCall (retry_prompt db_schema question raw0 no_block_error)])"
  proof
    assume h: "generate_content w ?tr1 (retry_prompt db_schema question raw0 no_block_error) = Inr raw1
           \<and> \<not> has_sql_block raw1"
    let ?st2 = "\<lparr>sql_query = raw1, result_str = no_block_error\<rparr>"
    have "attempt_body w db_file db_schema question 1 ?st1 ?tr1 =
            (Inr ?st2, ?tr1 @ [ModelCall (retry_prompt db_schema question raw0 no_block_error)])"
      using step [of ?tr1 1 ?st1 raw1] h p1 by simp
    with loop have l: "attempts_loop w db_file db_schema question [0..<max_retries] ?init tr0 =
            (Inr ?st2, ?tr1 @ [ModelCall (retry_prompt db_schema question raw0 no_block_error)])"
      by simp
    show "ask w data =
             (Response 200 [(''answer'', failure_message no_block_error)],
              tr0 @ [ModelCall (first_prompt db_schema question),
                     ModelCall (retry_prompt db_schema question raw0 no_block_error)])"
      using ask_after_loop [OF assms(1-5) l] failed_no_block [of raw1] by simp
  qed
  from step loop both failed_no_block [of raw0] show ?thesis by blast
qed

theorem no_sql_block_is_retried_once_witness:
  "ask (example_world [''no sql here'', ''still `` none'']) example_request =
     (Response 200 [(''answer'', failure_message no_block_error)],
      example_trace @
      [ModelCall (first_prompt example_schema ''How many?''),
       ModelCall (retry_prompt example_schema ''How many?'' ''no sql here'' no_block_error)])"
proof -
  let ?w = "example_world [''no sql here'', ''still `` none'']"
  have px: "path_exists ?w STORED_DB" by (simp add: example_world_def)
  have g0: "generate_content ?w example_trace (first_prompt example_schema ''How many?'') =
              Inr ''no sql here''"
    by code_simp
  have "re_search ''no sql here'' = None" by code_simp
  then have n0: "\<not> has_sql_block ''no sql here''"
    using re_search_has_sql_block [of "''no sql here''"] by simp
  have g1: "generate_content ?w (example_trace @ [ModelCall (first_prompt example_schema ''How many?'')])
              (retry_prompt example_schema ''How many?'' ''no sql here'' no_block_error) =
              Inr ''still `` none''"
    by code_simp
  have "re_search ''still `` none'' = None" by code_simp
  then have n1: "\<not> has_sql_block ''still `` none''"
    using re_search_has_sql_block [of "''still `` none''"] by simp
  from no_sql_block_is_retried_once [OF example_request_fields px example_get_db_schema
      example_schema_not_empty g0 n0, of "''still `` none''"] g1 n1
  show ?thesis by blast
qed

section \<open>The database selector\<close>

lemma stored_not_uploaded: "STORED_DB \<noteq> UPLOADED_DB"
  by (simp add: STORED_DB_def UPLOADED_DB_def)

lemma databases_of_append: "databases_of (tr @ tr') = databases_of tr @ databases_of tr'"
  by (simp add: databases_of_def)

lemma databases_of_exec: "databases_of [SqlExec d q] = [d]"
  by (simp add: databases_of_def)

lemma databases_of_call: "databases_of [ModelCall p] = []"
  by (simp add: databases_of_def)

lemma tables_loop_databases:
  "set (databases_of (snd (tables_loop w d ts s tr))) \<subseteq> set (databases_of tr) \<union> {d}"
proof (induction ts arbitrary: s tr)
  case Nil
  then show ?case by auto
next
  case (Cons t ts)
  have step: "set (databases_of (snd (tables_loop w d ts s' (tr @ [SqlExec d stmt]))))
                   \<subseteq> set (databases_of tr) \<union> {d}" for s' stmt
  proof -
    have "set (databases_of (snd (tables_loop w d ts s' (tr @ [SqlExec d stmt]))))
            \<subseteq> set (databases_of (tr @ [SqlExec d stmt])) \<union> {d}"
      by (rule Cons.IH)
    then show ?thesis
      by (simp add: databases_of_append databases_of_exec)
  qed
  show ?case
  proof (cases "getitem t 0")
    case (Inl e)
    then show ?thesis by auto
  next
    case (Inr v)
    show ?thesis
    proof (cases "value_startswith v ''sqlite_''")
      case (Inl e)
      with Inr show ?thesis by auto
    next
      case skip: (Inr b)
      show ?thesis
      proof (cases b)
        case True
        with Inr skip Cons.IH [where s = s and tr = tr] show ?thesis by simp
      next
        case False
        show ?thesis
        proof (cases "fetchall w tr d (table_info_query (py_str w v))")
          case (Inl e)
          with Inr skip False show ?thesis
            by (simp add: Let_def databases_of_append databases_of_exec)
        next
          case cols: (Inr cs)
          show ?thesis
          proof (cases "columns_loop w cs (s @ table_header (py_str w v))")
            case (Inl e)
            with Inr skip False cols show ?thesis
              by (simp add: Let_def databases_of_append databases_of_exec)
          next
            case line: (Inr s')
            with Inr skip False cols
              step [of "s' @ ''\<newline>''" "table_info_query (py_str w v)"]
            show ?thesis
              by (simp add: Let_def)
          qed
        qed
      qed
    qed
  qed
qed

lemma get_db_schema_databases:
  "set (databases_of (snd (get_db_schema w d tr))) \<subseteq> set (databases_of tr) \<union> {d}"
proof (cases "connect w d")
  case (Some e)
  then show ?thesis by (auto simp: get_db_schema_def)
next
  case None
  show ?thesis
  proof (cases "fetchall w tr d table_query")
    case (Inl e)
    with None show ?thesis
      by (simp add: get_db_schema_def databases_of_append databases_of_exec)
  next
    case (Inr ts)
    have "set (databases_of (snd (tables_loop w d ts [] (tr @ [SqlExec d table_query]))))
            \<subseteq> set (databases_of (tr @ [SqlExec d table_query])) \<union> {d}"
      by (rule tables_loop_databases)
    with None Inr show ?thesis
      by (simp add: get_db_schema_def databases_of_append databases_of_exec)
  qed
qed

lemma attempt_body_databases:
  "set (databases_of (snd (attempt_body w d s q a st tr))) \<subseteq> set (databases_of tr) \<union> {d}"
proof -
  let ?tr1 = "tr @ [ModelCall (attempt_prompt s q a st)]"
  have one: "set (databases_of ?tr1) \<subseteq> set (databases_of tr) \<union> {d}"
    by (auto simp: databases_of_append databases_of_call)
  have two: "databases_of [ModelCall p, SqlExec d x] = [d]" for p x
    by (simp add: databases_of_def)
  show ?thesis
  proof (cases "generate_content w tr (attempt_prompt s q a st)")
    case (Inl e)
    then have "snd (attempt_body w d s q a st tr) = ?tr1"
      by (simp add: attempt_body_def ask_gemini_def Let_def)
    with one show ?thesis by simp
  next
    case (Inr raw)
    show ?thesis
    proof (cases "re_search raw")
      case None
      with Inr have "snd (attempt_body w d s q a st tr) = ?tr1"
        by (simp add: attempt_body_no_block)
      with one show ?thesis by simp
    next
      case (Some g)
      have eq: "snd (attempt_body w d s q a st tr) = snd (execute_sql w d (strip g) ?tr1)"
        using Inr Some
        by (simp add: attempt_body_def ask_gemini_def Let_def split: prod.splits sum.splits)
      from execute_sql_trace [of w d "strip g" ?tr1]
      show ?thesis
      proof
        assume "snd (execute_sql w d (strip g) ?tr1) = ?tr1"
        with eq one show ?thesis by simp
      next
        assume "snd (execute_sql w d (strip g) ?tr1) = ?tr1 @ [SqlExec d (strip g)]"
        with eq have "snd (attempt_body w d s q a st tr) =
            tr @ [ModelCall (attempt_prompt s q a st), SqlExec d (strip g)]"
          by simp
        then show ?thesis
          by (auto simp: databases_of_append two)
      qed
    qed
  qed
qed

lemma attempts_loop_databases:
  "set (databases_of (snd (attempts_loop w d s q as st tr))) \<subseteq> set (databases_of tr) \<union> {d}"
proof (induction as arbitrary: st tr)
  case Nil
  then show ?case by auto
next
  case (Cons a as)
  obtain res tr' where b: "attempt_body w d s q a st tr = (res, tr')"
    by (cases "attempt_body w d s q a st tr")
  then have m: "set (databases_of tr') \<subseteq> set (databases_of tr) \<union> {d}"
    using attempt_body_databases [of w d s q a st tr] by simp
  show ?case
  proof (cases res)
    case (Inl e)
    with b m show ?thesis by simp
  next
    case (Inr st')
    show ?thesis
    proof (cases "failed st'")
      case False
      with b Inr m show ?thesis by simp
    next
      case True
      have "set (databases_of (snd (attempts_loop w d s q as st' tr'))) \<subseteq> set (databases_of tr') \<union> {d}"
        by (rule Cons.IH)
      with b Inr True m show ?thesis by auto
    qed
  qed
qed

lemma ask_try_databases: "set (databases_of (snd (ask_try w d q))) \<subseteq> {d}"
proof -
  obtain r0 tr0 where s: "get_db_schema w d [] = (r0, tr0)" by (cases "get_db_schema w d []")
  then have t0: "set (databases_of tr0) \<subseteq> {d}"
    using get_db_schema_databases [of w d "[]"] by (simp add: databases_of_def)
  show ?thesis
  proof (cases r0)
    case (Inl e)
    with s t0 show ?thesis by (simp add: ask_try_def)
  next
    case (Inr schema)
    show ?thesis
    proof (cases "schema = []")
      case True
      with s Inr t0 show ?thesis by (simp add: ask_try_def)
    next
      case False
      obtain r1 tr1 where l: "attempts_loop w d schema q [0..<max_retries]
                                \<lparr>sql_query = [], result_str = []\<rparr> tr0 = (r1, tr1)"
        by (cases "attempts_loop w d schema q [0..<max_retries] \<lparr>sql_query = [], result_str = []\<rparr> tr0")
      then have t1: "set (databases_of tr1) \<subseteq> {d}"
        using attempts_loop_databases [of w d schema q "[0..<max_retries]"
                "\<lparr>sql_query = [], result_str = []\<rparr>" tr0] t0
        by auto
      from s Inr False l t1 show ?thesis
        by (auto simp: ask_try_def ask_gemini_def databases_of_append databases_of_call
                 split: sum.splits)
    qed
  qed
qed

lemma ask_databases:
  "set (databases_of (snd (ask w data))) \<subseteq> {select_db (dict_get data ''chat_type'')}"
proof -
  let ?d = "select_db (dict_get data ''chat_type'')"
  let ?q = "str_json (dict_get data ''question'')"
  have "snd (ask w data) = [] \<or> snd (ask w data) = snd (ask_try w ?d ?q)"
    by (auto simp: ask_def Let_def split: prod.splits sum.splits)
  then show ?thesis
  proof
    assume "snd (ask w data) = []"
    then show ?thesis by (simp add: databases_of_def)
  next
    assume "snd (ask w data) = snd (ask_try w ?d ?q)"
    with ask_try_databases [of w ?d ?q] show ?thesis by simp
  qed
qed

text \<open>The trace only grows, so the first statement of a request stays its first effect.\<close>

lemma prefix_trans: "prefix xs ys \<Longrightarrow> prefix ys zs \<Longrightarrow> prefix xs zs"
  by (auto simp: prefix_def)

lemma prefix_snoc: "prefix xs ys \<Longrightarrow> prefix xs (ys @ zs)"
  by (auto simp: prefix_def)

lemma tables_loop_prefix: "prefix tr (snd (tables_loop w d ts s tr))"
proof (induction ts arbitrary: s tr)
  case Nil
  then show ?case by simp
next
  case (Cons t ts)
  have step: "prefix tr (snd (tables_loop w d ts s' (tr @ [e])))" for s' e
    using Cons.IH [where s = s' and tr = "tr @ [e]"] by (auto simp: prefix_def)
  show ?case
    using Cons.IH [where s = s and tr = tr] step
    by (auto simp: Let_def split: sum.splits)
qed

lemma get_db_schema_first:
  assumes "connect w d = None"
  shows "prefix [SqlExec d table_query] (snd (get_db_schema w d []))"
  using assms tables_loop_prefix [of "[SqlExec d table_query]" w d]
  by (auto simp: get_db_schema_def split: sum.splits)

lemma attempts_loop_prefix: "prefix tr (snd (attempts_loop w d s q as st tr))"
proof (induction as arbitrary: st tr)
  case Nil
  then show ?case by simp
next
  case (Cons a as)
  obtain res tr' where b: "attempt_body w d s q a st tr = (res, tr')"
    by (cases "attempt_body w d s q a st tr")
  then have m: "prefix tr tr'"
    using attempt_body_trace [of w d s q a st tr] by auto
  show ?case
  proof (cases res)
    case (Inl e)
    with b m show ?thesis by simp
  next
    case (Inr st')
    show ?thesis
    proof (cases "failed st'")
      case False
      with b Inr m show ?thesis by simp
    next
      case True
      have "prefix tr' (snd (attempts_loop w d s q as st' tr'))"
        by (rule Cons.IH)
      with m have "prefix tr (snd (attempts_loop w d s q as st' tr'))"
        by (rule prefix_trans)
      with b Inr True show ?thesis by simp
    qed
  qed
qed

lemma ask_try_first:
  assumes "connect w d = None"
  shows "prefix [SqlExec d table_query] (snd (ask_try w d q))"
proof -
  obtain r0 tr0 where s: "get_db_schema w d [] = (r0, tr0)" by (cases "get_db_schema w d []")
  then have t0: "prefix [SqlExec d table_query] tr0"
    using get_db_schema_first [OF assms] by simp
  show ?thesis
  proof (cases r0)
    case (Inl e)
    with s t0 show ?thesis by (simp add: ask_try_def)
  next
    case (Inr schema)
    show ?thesis
    proof (cases "schema = []")
      case True
      with s Inr t0 show ?thesis by (simp add: ask_try_def)
    next
      case False
      obtain r1 tr1 where l: "attempts_loop w d schema q [0..<max_retries]
                                \<lparr>sql_query = [], result_str = []\<rparr> tr0 = (r1, tr1)"
        by (cases "attempts_loop w d schema q [0..<max_retries] \<lparr>sql_query = [], result_str = []\<rparr> tr0")
      then have "prefix tr0 tr1"
        using attempts_loop_prefix [of tr0 w d schema q "[0..<max_retries]"
                "\<lparr>sql_query = [], result_str = []\<rparr>"]
        by simp
      with t0 have t1: "prefix [SqlExec d table_query] tr1"
        by (rule prefix_trans)
      then have t2: "prefix [SqlExec d table_query] (tr1 @ [e])" for e
        by (rule prefix_snoc)
      from s Inr False l t1 t2 show ?thesis
        by (auto simp: ask_try_def ask_gemini_def split: sum.splits)
    qed
  qed
qed

text \<open>
  The body of the route answers 400 only for a database without tables; every other answer
  of it has the status 200.
\<close>

lemma ask_try_response:
  assumes "ask_try w d q = (Inr r, tr)"
  shows "r = Response 400 [(''error'', ''No tables found in the database: '' @ d)]
           \<and> fst (get_db_schema w d []) = Inr []
         \<or> status r = 200"
  using assms
  by (auto simp: ask_try_def ask_gemini_def Let_def split: prod.splits sum.splits if_splits)

lemma ask_client_error:
  assumes "status (fst (ask w data)) = 400"
  shows "fst (ask w data) =
           Response 400 [(''error'', ''DB file '' @ select_db (dict_get data ''chat_type'') @ '' does not exist'')]
           \<and> \<not> path_exists w (select_db (dict_get data ''chat_type''))
         \<or> fst (ask w data) =
           Response 400 [(''error'', ''No tables found in the database: '' @ select_db (dict_get data ''chat_type''))]
           \<and> path_exists w (select_db (dict_get data ''chat_type''))
           \<and> fst (get_db_schema w (select_db (dict_get data ''chat_type'')) []) = Inr []"
proof (cases "path_exists w (select_db (dict_get data ''chat_type''))")
  case False
  then show ?thesis by (simp add: ask_def Let_def)
next
  case True
  let ?d = "select_db (dict_get data ''chat_type'')"
  let ?q = "str_json (dict_get data ''question'')"
  obtain res tr where t: "ask_try w ?d ?q = (res, tr)" by (cases "ask_try w ?d ?q")
  show ?thesis
  proof (cases res)
    case (Inl e)
    with True t assms show ?thesis by (simp add: ask_def Let_def)
  next
    case (Inr r)
    with True t have a: "fst (ask w data) = r" by (simp add: ask_def Let_def)
    from t Inr ask_try_response [of w ?d ?q r tr] a assms True show ?thesis by auto
  qed
qed

text \<open>
  Claim C10. The selector is not validated. The stored database is used exactly when
  \<open>chat_type\<close> is the string \<open>sql-stored\<close>: every statement of such a request goes to the
  stored database, and every statement of a request with any other value, a missing key and
  the strings \<open>stored\<close> and \<open>uploaded\<close> among them, goes to the uploaded database. Such a
  request is not rejected for its selector: when the file of the uploaded database exists
  and the connection opens, the first effect is the table query on the uploaded database;
  the only answers with the status 400 are those for a missing file and for a database
  without tables, both about the uploaded database; and when the loop succeeds on the
  uploaded database the answer is the model's paraphrase, with the status 200. The answer
  to two requests with the same question and any two such selectors is the same.
\<close>

theorem chat_type_selects_database:
  "(select_db ct = STORED_DB \<longleftrightarrow> ct = JStr ''sql-stored'')
   \<and> (ct \<noteq> JStr ''sql-stored'' \<longrightarrow> select_db ct = UPLOADED_DB)
   \<and> select_db (dict_get [] ''chat_type'') = UPLOADED_DB
   \<and> select_db (JStr ''stored'') = UPLOADED_DB
   \<and> select_db (JStr ''uploaded'') = UPLOADED_DB
   \<and> STORED_DB \<noteq> UPLOADED_DB
   \<and> (dict_get d1 ''chat_type'' \<noteq> JStr ''sql-stored'' \<and> dict_get d2 ''chat_type'' \<noteq> JStr ''sql-stored''
        \<and> dict_get d1 ''question'' = dict_get d2 ''question'' \<longrightarrow> ask w d1 = ask w d2)
   \<and> (dict_get data ''chat_type'' = JStr ''sql-stored'' \<longrightarrow>
        set (databases_of (snd (ask w data))) \<subseteq> {STORED_DB}
        \<and> (path_exists w STORED_DB \<and> connect w STORED_DB = None \<longrightarrow>
             prefix [SqlExec STORED_DB table_query] (snd (ask w data))))
   \<and> (dict_get data ''chat_type'' \<noteq> JStr ''sql-stored'' \<longrightarrow>
        set (databases_of (snd (ask w data))) \<subseteq> {UPLOADED_DB}
        \<and> (path_exists w UPLOADED_DB \<and> connect w UPLOADED_DB = None \<longrightarrow>
             prefix [SqlExec UPLOADED_DB table_query] (snd (ask w data)))
        \<and> (status (fst (ask w data)) = 400 \<longrightarrow>
             fst (ask w data) =
               Response 400 [(''error'', ''DB file data/uploaded_files_sqldb.db does not exist'')]
               \<and> \<not> path_exists w UPLOADED_DB
             \<or> fst (ask w data) =
               Response 400
                 [(''error'', ''No tables found in the database: data/uploaded_files_sqldb.db'')]
               \<and> path_exists w UPLOADED_DB
               \<and> fst (get_db_schema w UPLOADED_DB []) = Inr [])
        \<and> (path_exists w UPLOADED_DB
             \<and> get_db_schema w UPLOADED_DB [] = (Inr db_schema, tr0) \<and> db_schema \<noteq> []
             \<and> attempts_loop w UPLOADED_DB db_schema (str_json (dict_get data ''question''))
                  [0..<max_retries] \<lparr>sql_query = [], result_str = []\<rparr> tr0 = (Inr st, tr1)
             \<and> \<not> failed st
             \<and> generate_content w tr1
                  (''User Question: '' @ str_json (dict_get data ''question'') @
                   ''\<newline>SQL Result: '' @ result_str st @
                   ''\<newline>\<newline>Provide a clear, natural language answer.'') = Inr answer \<longrightarrow>
             ask w data =
               (Response 200 [(''answer'', answer)],
                tr1 @ [ModelCall
                  (''User Question: '' @ str_json (dict_get data ''question'') @
                   ''\<newline>SQL Result: '' @ result_str st @
                   ''\<newline>\<newline>Provide a clear, natural language answer.'')])))"
proof -
  have sel: "(select_db ct = STORED_DB \<longleftrightarrow> ct = JStr ''sql-stored'')
   \<and> (ct \<noteq> JStr ''sql-stored'' \<longrightarrow> select_db ct = UPLOADED_DB)
   \<and> select_db (dict_get [] ''chat_type'') = UPLOADED_DB
   \<and> select_db (JStr ''stored'') = UPLOADED_DB
   \<and> select_db (JStr ''uploaded'') = UPLOADED_DB
   \<and> STORED_DB \<noteq> UPLOADED_DB"
    using stored_not_uploaded by (simp add: select_db_def dict_get_def)
  have same: "dict_get d1 ''chat_type'' \<noteq> JStr ''sql-stored'' \<and> dict_get d2 ''chat_type'' \<noteq> JStr ''sql-stored''
        \<and> dict_get d1 ''question'' = dict_get d2 ''question'' \<longrightarrow> ask w d1 = ask w d2"
    by (simp add: select_db_def ask_def Let_def)
  have stored: "dict_get data ''chat_type'' = JStr ''sql-stored'' \<longrightarrow>
        set (databases_of (snd (ask w data))) \<subseteq> {STORED_DB}
        \<and> (path_exists w STORED_DB \<and> connect w STORED_DB = None \<longrightarrow>
             prefix [SqlExec STORED_DB table_query] (snd (ask w data)))"
  proof (intro impI conjI)
    assume c: "dict_get data ''chat_type'' = JStr ''sql-stored''"
    then have d: "select_db (dict_get data ''chat_type'') = STORED_DB" by (simp add: select_db_def)
    from ask_databases [of w data] d
    show "set (databases_of (snd (ask w data))) \<subseteq> {STORED_DB}" by simp
    assume p: "path_exists w STORED_DB \<and> connect w STORED_DB = None"
    then have "snd (ask w data) = snd (ask_try w STORED_DB (str_json (dict_get data ''question'')))"
      using d by (simp add: ask_def Let_def split: prod.splits sum.splits)
    with p ask_try_first [of w STORED_DB]
    show "prefix [SqlExec STORED_DB table_query] (snd (ask w data))" by simp
  qed
  have uploaded: "dict_get data ''chat_type'' \<noteq> JStr ''sql-stored'' \<longrightarrow>
        set (databases_of (snd (ask w data))) \<subseteq> {UPLOADED_DB}
        \<and> (path_exists w UPLOADED_DB \<and> connect w UPLOADED_DB = None \<longrightarrow>
             prefix [SqlExec UPLOADED_DB table_query] (snd (ask w data)))
        \<and> (status (fst (ask w data)) = 400 \<longrightarrow>
             fst (ask w data) =
               Response 400 [(''error'', ''DB file data/uploaded_files_sqldb.db does not exist'')]
               \<and> \<not> path_exists w UPLOADED_DB
             \<or> fst (ask w data) =
               Response 400
                 [(''error'', ''No tables found in the database: data/uploaded_files_sqldb.db'')]
               \<and> path_exists w UPLOADED_DB
               \<and> fst (get_db_schema w UPLOADED_DB []) = Inr [])
        \<and> (path_exists w UPLOADED_DB
             \<and> get_db_schema w UPLOADED_DB [] = (Inr db_schema, tr0) \<and> db_schema \<noteq> []
             \<and> attempts_loop w UPLOADED_DB db_schema (str_json (dict_get data ''question''))
                  [0..<max_retries] \<lparr>sql_query = [], result_str = []\<rparr> tr0 = (Inr st, tr1)
             \<and> \<not> failed st
             \<and> generate_content w tr1
                  (''User Question: '' @ str_json (dict_get data ''question'') @
                   ''\<newline>SQL Result: '' @ result_str st @
                   ''\<newline>\<newline>Provide a clear, natural language answer.'') = Inr answer \<longrightarrow>
             ask w data =
               (Response 200 [(''answer'', answer)],
                tr1 @ [ModelCall
                  (''User Question: '' @ str_json (dict_get data ''question'') @
                   ''\<newline>SQL Result: '' @ result_str st @
                   ''\<newline>\<newline>Provide a clear, natural language answer.'')]))"
  proof (intro impI conjI)
    assume c: "dict_get data ''chat_type'' \<noteq> JStr ''sql-stored''"
    then have d: "select_db (dict_get data ''chat_type'') = UPLOADED_DB" by (simp add: select_db_def)
    from ask_databases [of w data] d
    show "set (databases_of (snd (ask w data))) \<subseteq> {UPLOADED_DB}" by simp
    {
      assume p: "path_exists w UPLOADED_DB \<and> connect w UPLOADED_DB = None"
      then have "snd (ask w data) = snd (ask_try w UPLOADED_DB (str_json (dict_get data ''question'')))"
        using d by (simp add: ask_def Let_def split: prod.splits sum.splits)
      with p ask_try_first [of w UPLOADED_DB]
      show "prefix [SqlExec UPLOADED_DB table_query] (snd (ask w data))" by simp
    }
    {
      assume "status (fst (ask w data)) = 400"
      from ask_client_error [OF this] d
      show "fst (ask w data) =
               Response 400 [(''error'', ''DB file data/uploaded_files_sqldb.db does not exist'')]
               \<and> \<not> path_exists w UPLOADED_DB
             \<or> fst (ask w data) =
               Response 400
                 [(''error'', ''No tables found in the database: data/uploaded_files_sqldb.db'')]
               \<and> path_exists w UPLOADED_DB
               \<and> fst (get_db_schema w UPLOADED_DB []) = Inr []"
        by (simp add: UPLOADED_DB_def)
    }
    {
      assume h: "path_exists w UPLOADED_DB
             \<and> get_db_schema w UPLOADED_DB [] = (Inr db_schema, tr0) \<and> db_schema \<noteq> []
             \<and> attempts_loop w UPLOADED_DB db_schema (str_json (dict_get data ''question''))
                  [0..<max_retries] \<lparr>sql_query = [], result_str = []\<rparr> tr0 = (Inr st, tr1)
             \<and> \<not> failed st
             \<and> generate_content w tr1
                  (''User Question: '' @ str_json (dict_get data ''question'') @
                   ''\<newline>SQL Result: '' @ result_str st @
                   ''\<newline>\<newline>Provide a clear, natural language answer.'') = Inr answer"
      from h d ask_after_loop [of UPLOADED_DB data "str_json (dict_get data ''question'')" w db_schema tr0 st tr1]
      show "ask w data =
               (Response 200 [(''answer'', answer)],
                tr1 @ [ModelCall
                  (''User Question: '' @ str_json (dict_get data ''question'') @
                   ''\<newline>SQL Result: '' @ result_str st @
                   ''\<newline>\<newline>Provide a clear, natural language answer.'')])"
        by (simp add: answer_prompt_def)
    }
  qed
  from sel same stored uploaded show ?thesis by blast
qed

lemma uploaded_get_db_schema:
  "get_db_schema (uploaded_world rs) UPLOADED_DB [] = (Inr example_schema, uploaded_trace)"
  by code_simp

theorem chat_type_selects_database_witness:
  "ask (uploaded_world [''```sql\<newline>SELECT 1\<newline>```'', ''The answer is 1.''])
       [(''question'', JStr ''How many?''), (''chat_type'', JStr ''stored'')] =
     (Response 200 [(''answer'', ''The answer is 1.'')],
      [SqlExec ''data/uploaded_files_sqldb.db'' ''SELECT name FROM sqlite_master WHERE type='table';'',
       SqlExec ''data/uploaded_files_sqldb.db'' ''PRAGMA table_info(`rain`);'',
       ModelCall (first_prompt example_schema ''How many?''),
       SqlExec ''data/uploaded_files_sqldb.db'' ''SELECT 1'',
       ModelCall
         ''User Question: How many?\<newline>SQL Result: [(1,)]\<newline>\<newline>Provide a clear, natural language answer.''])
   \<and> ask (uploaded_world [''```sql\<newline>SELECT 1\<newline>```'', ''The answer is 1.''])
       [(''question'', JStr ''How many?'')] =
     ask (uploaded_world [''```sql\<newline>SELECT 1\<newline>```'', ''The answer is 1.''])
       [(''question'', JStr ''How many?''), (''chat_type'', JStr ''stored'')]
   \<and> ask (uploaded_world [''```sql\<newline>SELECT 1\<newline>```'', ''The answer is 1.''])
       [(''question'', JStr ''How many?''), (''chat_type'', JStr ''sql-stored'')] =
     (Response 400 [(''error'', ''DB file data/sqldb.db does not exist'')], [])"
proof -
  let ?w = "uploaded_world [''```sql\<newline>SELECT 1\<newline>```'', ''The answer is 1.'']"
  let ?d0 = "[(''question'', JStr ''How many?'')]"
  let ?d1 = "[(''question'', JStr ''How many?''), (''chat_type'', JStr ''stored'')]"
  let ?st = "\<lparr>sql_query = ''SELECT 1'', result_str = ''[(1,)]''\<rparr>"
  let ?tr1 = "uploaded_trace @ [ModelCall (first_prompt example_schema ''How many?''),
       SqlExec UPLOADED_DB ''SELECT 1'']"
  let ?a = "''User Question: How many?\<newline>SQL Result: [(1,)]\<newline>\<newline>Provide a clear, natural language answer.''"
  have c: "dict_get ?d0 ''chat_type'' \<noteq> JStr ''sql-stored''"
    "dict_get ?d1 ''chat_type'' \<noteq> JStr ''sql-stored''"
    "dict_get ?d0 ''question'' = dict_get ?d1 ''question''"
    by (simp_all add: dict_get_def)
  have q: "str_json (dict_get ?d1 ''question'') = ''How many?''" by code_simp
  have px: "path_exists ?w UPLOADED_DB" by (simp add: uploaded_world_def)
  have l: "attempts_loop ?w UPLOADED_DB example_schema ''How many?'' [0..<max_retries]
              \<lparr>sql_query = [], result_str = []\<rparr> uploaded_trace = (Inr ?st, ?tr1)"
    by code_simp
  have ok: "\<not> failed ?st" by code_simp
  have g: "generate_content ?w ?tr1 ?a = Inr ''The answer is 1.''" by code_simp
  have t: "''User Question: '' @ ''How many?'' @ ''\<newline>SQL Result: '' @ result_str ?st @
             ''\<newline>\<newline>Provide a clear, natural language answer.'' = ?a"
    by simp
  have tr: "?tr1 @ [ModelCall ?a] =
      [SqlExec ''data/uploaded_files_sqldb.db'' ''SELECT name FROM sqlite_master WHERE type='table';'',
       SqlExec ''data/uploaded_files_sqldb.db'' ''PRAGMA table_info(`rain`);'',
       ModelCall (first_prompt example_schema ''How many?''),
       SqlExec ''data/uploaded_files_sqldb.db'' ''SELECT 1'',
       ModelCall ?a]"
    by (simp add: uploaded_trace_def UPLOADED_DB_def table_query_def table_info_query_def)
  have s: "ask ?w [(''question'', JStr ''How many?''), (''chat_type'', JStr ''sql-stored'')] =
     (Response 400 [(''error'', ''DB file data/sqldb.db does not exist'')], [])"
    by code_simp
  note inst = chat_type_selects_database [where ?d1.0 = ?d0 and ?d2.0 = ?d1 and w = ?w and data = ?d1
      and db_schema = example_schema and ?tr0.0 = uploaded_trace and st = ?st and ?tr1.0 = ?tr1
      and answer = "''The answer is 1.''"]
  from inst c have e: "ask ?w ?d0 = ask ?w ?d1" by blast
  from inst c(2) px uploaded_get_db_schema [of "[''```sql\<newline>SELECT 1\<newline>```'', ''The answer is 1.'']"]
    example_schema_not_empty l ok g
  have "ask ?w ?d1 = (Response 200 [(''answer'', ''The answer is 1.'')], ?tr1 @ [ModelCall ?a])"
    unfolding q t by blast
  then have r: "ask ?w ?d1 =
     (Response 200 [(''answer'', ''The answer is 1.'')],
      [SqlExec ''data/uploaded_files_sqldb.db'' ''SELECT name FROM sqlite_master WHERE type='table';'',
       SqlExec ''data/uploaded_files_sqldb.db'' ''PRAGMA table_info(`rain`);'',
       ModelCall (first_prompt example_schema ''How many?''),
       SqlExec ''data/uploaded_files_sqldb.db'' ''SELECT 1'',
       ModelCall ?a])"
    by (simp only: tr)
  from r e s show ?thesis by blast
qed

section \<open>Success with no rows, the retry prompt, the empty schema\<close>



lemma str_rows_empty: "str_rows w [] = ''[]''"
  by (simp add: str_rows_def)

text \<open>
  Claim C5. An execution that returns no rows is a success: its \<open>result_str\<close> is \<open>[]\<close>,
  which is not taken as a failure, the loop is left at that attempt whatever remains of the
  budget, and the route sends the model the question and \<open>[]\<close>, in the text
  \<open>User Question: ... SQL Result: []\<close>, and answers with the model's reply.
\<close>

theorem zero_rows_is_success:
  assumes "db_file = select_db (dict_get data ''chat_type'')"
    and "question = str_json (dict_get data ''question'')"
    and "path_exists w db_file"
    and "get_db_schema w db_file [] = (Inr db_schema, tr0)" and "db_schema \<noteq> []"
  shows "str_result w (Rows []) = ''[]''
       \<and> \<not> failed \<lparr>sql_query = q, result_str = ''[]''\<rparr>
       \<and> (connect w db_file = None
            \<and> generate_content w tr (attempt_prompt db_schema question attempt st) = Inr raw
            \<and> re_search raw = Some g
            \<and> fetchall w (tr @ [ModelCall (attempt_prompt db_schema question attempt st)])
                 db_file (strip g) = Inr [] \<longrightarrow>
          attempts_loop w db_file db_schema question (attempt # rest) st tr =
            (Inr \<lparr>sql_query = strip g, result_str = ''[]''\<rparr>,
             tr @ [ModelCall (attempt_prompt db_schema question attempt st),
                   SqlExec db_file (strip g)]))
       \<and> (attempts_loop w db_file db_schema question [0..<max_retries]
              \<lparr>sql_query = [], result_str = []\<rparr> tr0 = (Inr st', tr1)
            \<and> result_str st' = ''[]''
            \<and> generate_content w tr1 (''User Question: '' @ question @
               ''\<newline>SQL Result: []\<newline>\<newline>Provide a clear, natural language answer.'') = Inr answer \<longrightarrow>
          ask w data =
            (Response 200 [(''answer'', answer)],
             tr1 @ [ModelCall (''User Question: '' @ question @
               ''\<newline>SQL Result: []\<newline>\<newline>Provide a clear, natural language answer.'')]))"
proof (intro conjI impI)
  show "str_result w (Rows []) = ''[]''"
    by (simp add: str_result_def str_rows_empty)
  show "\<not> failed \<lparr>sql_query = q, result_str = ''[]''\<rparr>"
    by (simp add: failed_def startswith_def)
next
  let ?p = "attempt_prompt db_schema question attempt st"
  assume h: "connect w db_file = None
            \<and> generate_content w tr ?p = Inr raw
            \<and> re_search raw = Some g
            \<and> fetchall w (tr @ [ModelCall ?p]) db_file (strip g) = Inr []"
  then have ex: "execute_sql w db_file (strip g) (tr @ [ModelCall ?p]) =
      (Inr (Rows []), (tr @ [ModelCall ?p]) @ [SqlExec db_file (strip g)])"
    by (simp add: execute_sql_def Let_def)
  have "attempt_body w db_file db_schema question attempt st tr =
      (Inr \<lparr>sql_query = strip g, result_str = str_result w (Rows [])\<rparr>,
       (tr @ [ModelCall ?p]) @ [SqlExec db_file (strip g)])"
    using attempt_body_executed [of w tr db_schema question attempt st raw g db_file "Rows []"] h ex
    by simp
  then show "attempts_loop w db_file db_schema question (attempt # rest) st tr =
            (Inr \<lparr>sql_query = strip g, result_str = ''[]''\<rparr>,
             tr @ [ModelCall ?p, SqlExec db_file (strip g)])"
    by (simp add: str_result_def str_rows_empty failed_def startswith_def)
next
  assume h: "attempts_loop w db_file db_schema question [0..<max_retries]
              \<lparr>sql_query = [], result_str = []\<rparr> tr0 = (Inr st', tr1)
            \<and> result_str st' = ''[]''
            \<and> generate_content w tr1 (''User Question: '' @ question @
               ''\<newline>SQL Result: []\<newline>\<newline>Provide a clear, natural language answer.'') = Inr answer"
  then have l: "attempts_loop w db_file db_schema question [0..<max_retries]
              \<lparr>sql_query = [], result_str = []\<rparr> tr0 = (Inr st', tr1)" by simp
  from h have nf: "\<not> failed st'" by (simp add: failed_def startswith_def)
  show "ask w data =
            (Response 200 [(''answer'', answer)],
             tr1 @ [ModelCall (''User Question: '' @ question @
               ''\<newline>SQL Result: []\<newline>\<newline>Provide a clear, natural language answer.'')])"
    using ask_after_loop [OF assms(1-5) l] nf h by (simp add: answer_prompt_def)
qed

theorem zero_rows_is_success_witness:
  "ask (example_world [''```SQL SELECT 1 WHERE 0 ```'', ''Nothing was found.'']) example_request =
     (Response 200 [(''answer'', ''Nothing was found.'')],
      example_trace @
      [ModelCall (first_prompt example_schema ''How many?''),
       SqlExec STORED_DB ''SELECT 1 WHERE 0'',
       ModelCall
         ''User Question: How many?\<newline>SQL Result: []\<newline>\<newline>Provide a clear, natural language answer.''])"
proof -
  let ?w = "example_world [''```SQL SELECT 1 WHERE 0 ```'', ''Nothing was found.'']"
  let ?tr1 = "example_trace @ [ModelCall (first_prompt example_schema ''How many?''),
       SqlExec STORED_DB ''SELECT 1 WHERE 0'']"
  have px: "path_exists ?w STORED_DB" by (simp add: example_world_def)
  have l: "attempts_loop ?w STORED_DB example_schema ''How many?'' [0..<max_retries]
              \<lparr>sql_query = [], result_str = []\<rparr> example_trace =
            (Inr \<lparr>sql_query = ''SELECT 1 WHERE 0'', result_str = ''[]''\<rparr>, ?tr1)"
    by code_simp
  have g: "generate_content ?w ?tr1 
      ''User Question: How many?\<newline>SQL Result: []\<newline>\<newline>Provide a clear, natural language answer.'' = Inr ''Nothing was found.''"
    by code_simp
  from zero_rows_is_success [OF example_request_fields px example_get_db_schema
      example_schema_not_empty,
      where st' = "\<lparr>sql_query = ''SELECT 1 WHERE 0'', result_str = ''[]''\<rparr>"
        and ?tr1.0 = ?tr1 and answer = "''Nothing was found.''"] l g
  show ?thesis by simp
qed



lemma tables_loop_internal:
  "\<forall>t\<in>set table_names. \<exists>n. t = [SqlText n] \<and> startswith n ''sqlite_''
   \<Longrightarrow> tables_loop w d table_names s tr = (Inr s, tr)"
  by (induction table_names) (auto simp: getitem_def value_startswith_def)

text \<open>
  Claim C4. Over a database file whose tables are all internal ones, \<open>get_db_schema\<close>
  returns the empty string, and the route answers with status 400 and the message that no
  tables were found; the only effect is the statement that lists the tables, and the model
  is never called.
\<close>

theorem empty_schema_short_circuits:
  assumes "db_file = select_db (dict_get data ''chat_type'')"
    and "path_exists w db_file"
    and "connect w db_file = None"
    and "fetchall w [] db_file table_query = Inr table_names"
    and "\<forall>t\<in>set table_names. \<exists>n. t = [SqlText n] \<and> startswith n ''sqlite_''"
  shows "get_db_schema w db_file [] = (Inr [], [SqlExec db_file table_query])
       \<and> ask w data =
           (Response 400 [(''error'', ''No tables found in the database: '' @ db_file)],
            [SqlExec db_file table_query])
       \<and> model_calls (snd (ask w data)) = 0"
proof -
  have s: "get_db_schema w db_file [] = (Inr [], [SqlExec db_file table_query])"
    using assms(3,4) tables_loop_internal [OF assms(5)] by (simp add: get_db_schema_def)
  then have a: "ask w data =
           (Response 400 [(''error'', ''No tables found in the database: '' @ db_file)],
            [SqlExec db_file table_query])"
    using assms(1,2) by (simp add: ask_def ask_try_def Let_def)
  then have "model_calls (snd (ask w data)) = 0" by (simp add: model_calls_def)
  with s a show ?thesis by simp
qed

theorem empty_schema_short_circuits_witness:
  "ask (empty_world [''```sql SELECT 1```'']) example_request =
     (Response 400 [(''error'', ''No tables found in the database: '' @ STORED_DB)],
      [SqlExec STORED_DB table_query])
   \<and> model_calls (snd (ask (empty_world [''```sql SELECT 1```'']) example_request)) = 0"
proof -
  let ?w = "empty_world [''```sql SELECT 1```'']"
  have px: "path_exists ?w STORED_DB" by (simp add: empty_world_def example_world_def)
  have c: "connect ?w STORED_DB = None" by (simp add: empty_world_def example_world_def)
  have t: "fetchall ?w [] STORED_DB table_query = Inr [[SqlText ''sqlite_sequence'']]"
    by (simp add: empty_world_def)
  have i: "\<forall>t\<in>set [[SqlText ''sqlite_sequence'']]. \<exists>n. t = [SqlText n] \<and> startswith n ''sqlite_''"
    by (simp add: startswith_def)
  from empty_schema_short_circuits [OF example_request_fields(1) px c t i] show ?thesis by blast
qed

section \<open>The description of the schema, and the upload\<close>

lemma columns_loop_lines:
  "map (\<lambda>r. getitem r 1) rows = map (\<lambda>c. Inr (SqlText c)) cs
   \<Longrightarrow> columns_loop w rows s = Inr (s @ concat (map column_line cs))"
proof (induction rows arbitrary: cs s)
  case Nil
  then show ?case by simp
next
  case (Cons r rows)
  then obtain c cs' where cs: "cs = c # cs'" by (cases cs) auto
  with Cons.prems have r: "getitem r 1 = Inr (SqlText c)"
    and rest: "map (\<lambda>r. getitem r 1) rows = map (\<lambda>c. Inr (SqlText c)) cs'" by simp_all
  from Cons.IH [OF rest] r cs show ?case by (simp add: py_str_def)
qed

lemma tables_loop_describes:
  assumes "\<forall>tr. \<forall>t\<in>set tables. \<not> internal (fst t) \<longrightarrow>
            (\<exists>rows. fetchall w tr db_file (table_info_query (fst t)) = Inr rows
                  \<and> map (\<lambda>r. getitem r 1) rows = map (\<lambda>c. Inr (SqlText c)) (snd t))"
  shows "fst (tables_loop w db_file (map (\<lambda>t. [SqlText (fst t)]) tables) s tr) =
           Inr (s @ describe tables)"
  using assms
proof (induction tables arbitrary: s tr)
  case Nil
  then show ?case by (simp add: describe_def)
next
  case (Cons t tables)
  have IH: "\<And>s tr. fst (tables_loop w db_file (map (\<lambda>t. [SqlText (fst t)]) tables) s tr) =
           Inr (s @ describe tables)"
    using Cons.IH Cons.prems by simp
  show ?case
  proof (cases "internal (fst t)")
    case True
    then have "describe (t # tables) = describe tables" by (simp add: describe_def)
    with True IH show ?thesis
      by (simp add: getitem_def value_startswith_def internal_def)
  next
    case False
    with Cons.prems obtain rows where
      f: "fetchall w tr db_file (table_info_query (fst t)) = Inr rows"
      and c: "map (\<lambda>r. getitem r 1) rows = map (\<lambda>c. Inr (SqlText c)) (snd t)"
      by (metis list.set_intros(1))
    have d: "describe (t # tables) = describe_table t @ describe tables"
      using False by (simp add: describe_def)
    have cl: "columns_loop w rows (s @ table_header (fst t)) =
        Inr ((s @ table_header (fst t)) @ concat (map column_line (snd t)))"
      by (rule columns_loop_lines [OF c])
    show ?thesis
      using False f cl IH d
      by (simp add: getitem_def value_startswith_def internal_def py_str_def Let_def
          describe_table_def)
  qed
qed

lemma get_db_schema_describes:
  assumes "serves w db_file tables"
  shows "fst (get_db_schema w db_file tr) = Inr (describe tables)"
proof -
  from assms have c: "connect w db_file = None"
    and q: "fetchall w tr db_file table_query = Inr (map (\<lambda>t. [SqlText (fst t)]) tables)"
    and i: "\<forall>tr. \<forall>t\<in>set tables. \<not> internal (fst t) \<longrightarrow>
            (\<exists>rows. fetchall w tr db_file (table_info_query (fst t)) = Inr rows
                  \<and> map (\<lambda>r. getitem r 1) rows = map (\<lambda>c. Inr (SqlText c)) (snd t))"
    by (simp_all add: serves_def)
  from tables_loop_describes [OF i] c q show ?thesis by (simp add: get_db_schema_def)
qed

lemma describe_table_not_empty: "describe_table t \<noteq> []"
  by (simp add: describe_table_def table_header_def)

lemma describe_empty_iff: "describe tables = [] \<longleftrightarrow> (\<forall>t\<in>set tables. internal (fst t))"
  by (auto simp: describe_def describe_table_not_empty)

lemma describe_ignores_internal:
  "describe tables = describe (filter (\<lambda>t. \<not> internal (fst t)) tables)"
  by (simp add: describe_def)

lemma describe_lists_table:
  "t \<in> set tables \<Longrightarrow> \<not> internal (fst t) \<Longrightarrow> sublist (describe_table t) (describe tables)"
proof -
  assume "t \<in> set tables" "\<not> internal (fst t)"
  then have "t \<in> set (filter (\<lambda>t. \<not> internal (fst t)) tables)" by simp
  then obtain xs ys where "filter (\<lambda>t. \<not> internal (fst t)) tables = xs @ t # ys"
    by (meson split_list)
  then have "describe tables =
      concat (map describe_table xs) @ describe_table t @ concat (map describe_table ys)"
    by (simp add: describe_def)
  then show ?thesis by (simp only: sublist_appendI)
qed

text \<open>
  Claim C7 fails on a table whose name holds a backquote. The statement that asks for its
  columns quotes the name between backquotes as it is, so for the table \<open>a`b\<close>, which the
  route \<open>/upload\<close> creates from a file \<open>a`b.csv\<close>, the text sent to the engine is
  \<^verbatim>\<open>PRAGMA table_info(`a`b`);\<close>. The engine rejects it, the exception leaves
  \<open>get_db_schema\<close>, no description is returned, and the route answers with status 500.
  For the databases whose statements the engine answers, the lemmas above give the claim:
  the description is \<open>describe\<close> of the tables.
\<close>

theorem get_db_schema_backquote_table:
  "table_name_of ''a`b.csv'' = ''a`b''
   \<and> table_info_query ''a`b'' = ''PRAGMA table_info(`a`b`);''
   \<and> get_db_schema backquote_world UPLOADED_DB [] =
       (Inl near_b_syntax_error,
        [SqlExec UPLOADED_DB table_query, SqlExec UPLOADED_DB ''PRAGMA table_info(`a`b`);''])
   \<and> status (fst (ask backquote_world [(''question'', JStr ''How many?'')])) = 500"
proof (intro conjI)
  show "table_name_of ''a`b.csv'' = ''a`b''" by code_simp
  show "table_info_query ''a`b'' = ''PRAGMA table_info(`a`b`);''" by code_simp
  show "get_db_schema backquote_world UPLOADED_DB [] =
       (Inl near_b_syntax_error,
        [SqlExec UPLOADED_DB table_query, SqlExec UPLOADED_DB ''PRAGMA table_info(`a`b`);''])"
    by code_simp
  show "status (fst (ask backquote_world [(''question'', JStr ''How many?'')])) = 500"
    by code_simp
qed



lemma upload_unsupported:
  assumes "lower (snd (splitext (filename f))) \<noteq> ''.csv''"
    and "lower (snd (splitext (filename f))) \<noteq> ''.xlsx''"
  shows "upload_loop pd eng (f # fs) db =
     Inr (Response 400 [(''error'', ''Unsupported file type '' @ snd (splitext (filename f)))], db)"
  using assms by (simp add: Let_def)

lemma upload_unreadable:
  assumes "lower (snd (splitext (filename f))) = ''.csv'' \<and> read_csv pd f = Inl e
         \<or> lower (snd (splitext (filename f))) = ''.xlsx'' \<and> read_excel pd f = Inl e"
  shows "upload_loop pd eng (f # fs) db = Inl e"
  using assms by (auto simp: Let_def)






end
